theory Spec2Isabelle
  imports Complex_Main "HOL-Library.List_Lexorder" "HOL-Library.Char_ord"
begin

section \<open>Python values, exceptions and outcomes\<close>

text \<open>
  The three scripts are Python. A Python object that the code inspects at run time (a
  keyword argument, a decoded JSON body, the value a backend returns) is a \<open>pyval\<close>;
  JSON numbers are restricted to integers. An exception is a \<open>pyexn\<close>, and a
  computation that may raise returns \<open>pyexn + 'a\<close> with \<open>Inl\<close> for the exception.
  \<open>OSError\<close> stands for its subclasses too (\<open>PermissionError\<close>,
  \<open>IsADirectoryError\<close>), \<open>OtherError\<close> for any class not listed.
\<close>

datatype pyval =
    PNone
  | PBool bool
  | PInt int
  | PStr string
  | PList "pyval list"
  | PDict "(string \<times> pyval) list"

datatype pyexn =
    TypeError string
  | OSError string
  | AttributeError string
  | SqliteError string
  | CalledProcessError int
  | OverflowError string
  | OtherError string

text \<open>Python's truth value of an object, as \<open>if x:\<close> and \<open>not x\<close> test it.\<close>

fun truthy :: "pyval \<Rightarrow> bool" where
  "truthy PNone = False"
| "truthy (PBool b) = b"
| "truthy (PInt i) = (i \<noteq> 0)"
| "truthy (PStr s) = (s \<noteq> [])"
| "truthy (PList xs) = (xs \<noteq> [])"
| "truthy (PDict kvs) = (kvs \<noteq> [])"

section \<open>chrome_history_analyzer.py: the pattern analyzer\<close>

subsection \<open>Visit records\<close>

text \<open>
  One row of the DataFrame that \<open>extract_chrome_history\<close> returns. \<open>visit_time\<close> is a
  naive local timestamp with the one-second resolution of SQLite's \<open>datetime()\<close>, held
  as seconds since 1970-01-01 00:00:00; \<open>date\<close> is a day number since 1970-01-01. The
  columns \<open>hour\<close>, \<open>date\<close>, \<open>day_of_week\<close> and \<open>domain\<close> are stored columns: the
  analyzer groups by what is stored, whoever built the frame. No column holds a missing
  value (\<open>groupby\<close> would drop such rows), except \<open>title\<close>.
\<close>

record visit =
  visit_time :: int
  url :: string
  title :: "string option"
  duration_seconds :: int
  hour :: int
  date :: int
  day_of_week :: string
  domain :: string

type_synonym dataframe = "visit list"

text \<open>The \<open>.dt\<close> accessors of a timestamp column.\<close>

definition dt_hour :: "int \<Rightarrow> int" where
  "dt_hour t = (t div 3600) mod 24"

definition dt_date :: "int \<Rightarrow> int" where
  "dt_date t = t div 86400"

definition day_names :: "string list" where
  "day_names = [''Monday'', ''Tuesday'', ''Wednesday'', ''Thursday'', ''Friday'',
                ''Saturday'', ''Sunday'']"

definition dt_day_name :: "int \<Rightarrow> string" where
  \<comment> \<open>1970-01-01 was a Thursday.\<close>
  "dt_day_name t = day_names ! nat ((dt_date t + 3) mod 7)"

subsection \<open>The pandas operations the analyzer calls\<close>

text \<open>
  \<open>df.groupby(col).size().reset_index(name='count')\<close>: one row per distinct value of
  the column, in ascending order of that value (\<open>groupby\<close> sorts its keys by default),
  with the number of rows of the frame that carry it.
\<close>

definition groupby_size :: "(visit \<Rightarrow> 'k::linorder) \<Rightarrow> dataframe \<Rightarrow> ('k \<times> nat) list" where
  "groupby_size col df =
     map (\<lambda>k. (k, length (filter (\<lambda>r. col r = k) df))) (sort (remdups (map col df)))"

text \<open>
  \<open>DataFrame.sort_values(by, *, axis, ascending, inplace, kind, na_position,
  ignore_index, key)\<close> takes no other keyword: as for any Python function without
  \<open>**kwargs\<close>, a call with a keyword outside this list raises \<open>TypeError\<close> before the
  body runs. With accepted keywords the rows are ordered by the count column, ascending
  unless \<open>ascending=False\<close>; the order of rows with equal counts under the default
  \<open>kind='quicksort'\<close> is not fixed by pandas and is modelled here as the stable one.
\<close>

definition sort_values_keywords :: "string list" where
  "sort_values_keywords =
     [''axis'', ''ascending'', ''inplace'', ''kind'', ''na_position'', ''ignore_index'', ''key'']"

definition sort_values ::
  "string \<Rightarrow> (string \<times> pyval) list \<Rightarrow> ('k \<times> nat) list \<Rightarrow> pyexn + ('k \<times> nat) list" where
  "sort_values by kwargs rows =
     (case filter (\<lambda>kw. fst kw \<notin> set sort_values_keywords) kwargs of
        kw # _ \<Rightarrow>
          Inl (TypeError (''sort_values() got an unexpected keyword argument '' @ fst kw))
      | [] \<Rightarrow>
          if map_of kwargs ''ascending'' = Some (PBool False)
          then Inr (sort_key (\<lambda>r. - int (snd r)) rows)
          else Inr (sort_key (\<lambda>r. int (snd r)) rows))"

text \<open>
  \<open>df.groupby('date').agg(first_browse=('visit_time','min'),
  last_browse=('visit_time','max')).reset_index()\<close>: one row per distinct date, ascending,
  with the earliest and the latest timestamp among the rows of that date.
\<close>

definition groupby_first_last :: "dataframe \<Rightarrow> (int \<times> int \<times> int) list" where
  "groupby_first_last df =
     map (\<lambda>d. (d, Min (set (map visit_time (filter (\<lambda>r. date r = d) df))),
                  Max (set (map visit_time (filter (\<lambda>r. date r = d) df)))))
         (sort (remdups (map date df)))"

text \<open>
  \<open>Series.mean()\<close> of a column of hours: NaN (\<open>None\<close>) on the empty column, else sum over
  length. The float64 quotient is modelled by the exact rational.
\<close>

definition mean :: "int list \<Rightarrow> rat option" where
  "mean xs = (if xs = [] then None else Some (of_int (sum_list xs) / of_nat (length xs)))"

subsection \<open>analyze_browsing_patterns\<close>

record analysis =
  hourly_activity :: "(int \<times> nat) list"
  daily_activity :: "(string \<times> nat) list"
  top_domains :: "(string \<times> nat) list"
  avg_first_hour :: "rat option"
  avg_last_hour :: "rat option"

text \<open>
  The body of the function, statement by statement. The keyword that the source passes
  to \<open>sort_values\<close> is \<open>descending=True\<close>.
\<close>

definition analyze_browsing_patterns :: "dataframe \<Rightarrow> pyexn + analysis" where
  "analyze_browsing_patterns df =
     (let hourly = groupby_size hour df;
          daily = groupby_size day_of_week df
      in case sort_values ''count'' [(''descending'', PBool True)] (groupby_size domain df) of
           Inl e \<Rightarrow> Inl e
         | Inr domain_counts \<Rightarrow>
             (let daily_first_last = groupby_first_last df;
                  first_hour = map (\<lambda>(d, first_browse, last_browse). dt_hour first_browse)
                                   daily_first_last;
                  last_hour = map (\<lambda>(d, first_browse, last_browse). dt_hour last_browse)
                                  daily_first_last
              in Inr \<lparr> hourly_activity = hourly,
                       daily_activity = daily,
                       top_domains = take 20 domain_counts,
                       avg_first_hour = mean first_hour,
                       avg_last_hour = mean last_hour \<rparr>))"

text \<open>The three records of the scenario: 2024-01-01 (a Monday) at 09:00, 09:00 and 23:00.\<close>

definition mk_visit :: "int \<Rightarrow> string \<Rightarrow> string \<Rightarrow> visit" where
  "mk_visit t u dom_name =
     \<lparr> visit_time = t, url = u, title = None, duration_seconds = 0,
       hour = dt_hour t, date = dt_date t, day_of_week = dt_day_name t, domain = dom_name \<rparr>"

definition scenario_df :: dataframe where
  "scenario_df =
     [ mk_visit 1704099600 ''https://a.com/'' ''a.com'',
       mk_visit 1704099600 ''https://a.com/'' ''a.com'',
       mk_visit 1704150000 ''https://b.com/'' ''b.com'' ]"

section \<open>The world the scripts run in\<close>

text \<open>
  What a script changes outside its own variables: the files (a path has a content or is
  absent), what it printed (the objects passed to \<open>print\<close>, in order), and a log of
  the file operations and child processes it performed. Directories are not modelled,
  but for the one the extractor's environment tells of: \<open>mkdir\<close> changes nothing here
  and a write to a path succeeds. \<open>remove_file\<close> is what an \<open>os.remove\<close> that
  succeeds does; whether the extractor's \<open>os.remove\<close> succeeds is decided in its
  \<open>finally\<close> clause.
\<close>

type_synonym path = string

datatype event =
    Copied path path
  | Removed path
  | Wrote path
  | Ran "string list"

record world =
  files :: "path \<rightharpoonup> string"
  printed :: "pyval list"
  events :: "event list"

datatype 'a outcome =
    Returned 'a
  | SysExit int
  | Uncaught pyexn

definition say :: "string \<Rightarrow> world \<Rightarrow> world" where
  "say s w = w\<lparr>printed := printed w @ [PStr s]\<rparr>"

definition write_file :: "path \<Rightarrow> string \<Rightarrow> world \<Rightarrow> world" where
  \<comment> \<open>\<open>open(p, 'w')\<close>, \<open>write\<close>, close: the old content is replaced.\<close>
  "write_file p s w = w\<lparr>files := (files w)(p \<mapsto> s), events := events w @ [Wrote p]\<rparr>"

definition remove_file :: "path \<Rightarrow> world \<Rightarrow> world" where
  "remove_file p w = w\<lparr>files := (files w)(p := None), events := events w @ [Removed p]\<rparr>"

definition exn_message :: "pyexn \<Rightarrow> string" where
  "exn_message e =
     (case e of TypeError m \<Rightarrow> m | OSError m \<Rightarrow> m | AttributeError m \<Rightarrow> m
      | SqliteError m \<Rightarrow> m | CalledProcessError c \<Rightarrow> ''non-zero exit status''
      | OverflowError m \<Rightarrow> m | OtherError m \<Rightarrow> m)"

text \<open>Python's \<open>str\<close> of an integer.\<close>

definition digit :: "nat \<Rightarrow> char" where
  "digit d = ''0123456789'' ! d"

fun str_nat :: "nat \<Rightarrow> string" where
  "str_nat n = (if n < 10 then [digit n] else str_nat (n div 10) @ [digit (n mod 10)])"

declare str_nat.simps [simp del]

function str_pos :: "int \<Rightarrow> string" where
  "str_pos i =
     (if i < 10 then [digit (nat i)] else str_pos (i div 10) @ [digit (nat (i mod 10))])"
  by pat_completeness auto
termination
  by (relation "measure nat") auto

declare str_pos.simps [simp del]

definition str_int :: "int \<Rightarrow> string" where
  "str_int i = (if i < 0 then ''-'' @ str_pos (- i) else str_pos i)"

section \<open>chrome_history_analyzer.py: the history extractor\<close>

text \<open>
  What the extractor cannot decide itself is its environment: the platform and the home
  directory, the clock, whether a directory stands at the path of the temporary copy,
  whether \<open>shutil.copy2\<close> succeeds (and what a failed copy has left at the destination,
  if anything), whether \<open>sqlite3.connect\<close> raises an \<open>sqlite3.Error\<close>, what
  \<open>pd.read_sql_query\<close> yields for a cutoff (the rows, an \<open>sqlite3.Error\<close>, or another
  exception), and what \<open>urlparse(x).netloc\<close> yields for a URL (the host, or the
  \<open>ValueError\<close> that \<open>urlparse\<close> raises on a malformed one). A row's \<open>visit_time\<close>
  is taken as already parsed by \<open>pd.to_datetime\<close>.
\<close>

datatype copy_outcome = CopyDone | CopyRaises string "string option"

record raw_visit =
  raw_visit_time :: int
  raw_url :: string
  raw_title :: "string option"
  raw_duration_seconds :: int

datatype query_outcome =
    Rows "raw_visit list"
  | RaisesSqlite string
  | RaisesOther string

record extract_env =
  platform_system :: string
  home :: path
  now_us :: int
  temp_is_dir :: bool
  copy_result :: copy_outcome
  connect_result :: "string option"
  query_result :: "int \<Rightarrow> query_outcome"
  netloc :: "string \<Rightarrow> pyexn + string"

definition get_chrome_history_path :: "extract_env \<Rightarrow> pyexn + path" where
  "get_chrome_history_path env =
     (if platform_system env = ''Windows''
      then Inr (home env @ ''/AppData/Local/Google/Chrome/User Data/Default/History'')
      else if platform_system env = ''Darwin''
      then Inr (home env @ ''/Library/Application Support/Google/Chrome/Default/History'')
      else if platform_system env = ''Linux''
      then Inr (home env @ ''/.config/google-chrome/Default/History'')
      else Inl (OSError (''Unsupported operating system: '' @ platform_system env)))"

definition temp_copy :: "extract_env \<Rightarrow> path" where
  "temp_copy env = home env @ ''/history_temp.db''"

subsection \<open>The cutoff of lines 70 and 71\<close>

text \<open>
  Python's \<open>float\<close> is IEEE binary64. \<open>binary64 q\<close> is the float nearest to the rational
  \<open>q\<close>, ties to the even significand, for \<open>q\<close> in the range of normal floats (the only
  ones that occur here): 53 significant bits, \<open>float_exponent q\<close> being the exponent
  of the power of two at or below the magnitude of \<open>q\<close>.
\<close>

function bits :: "int \<Rightarrow> int" where
  "bits n = (if n \<le> 0 then 0 else 1 + bits (n div 2))"
  by pat_completeness auto
termination
  by (relation "measure nat") auto

declare bits.simps [simp del]

definition pow2 :: "int \<Rightarrow> rat" where
  "pow2 e = (if 0 \<le> e then 2 ^ nat e else 1 / 2 ^ nat (- e))"

definition float_exponent :: "rat \<Rightarrow> int" where
  "float_exponent q =
     (let a = \<bar>q\<bar>
      in if 1 \<le> a then bits \<lfloor>a\<rfloor> - 1
         else (let m = bits \<lfloor>1 / a\<rfloor> - 1
               in if pow2 m = 1 / a then - m else - m - 1))"

definition round_half_even :: "rat \<Rightarrow> int" where
  "round_half_even q =
     (let f = \<lfloor>q\<rfloor>; d = q - of_int f
      in if d < 1 / 2 then f else if 1 / 2 < d then f + 1 else if even f then f else f + 1)"

definition binary64 :: "rat \<Rightarrow> rat" where
  "binary64 q =
     (if q = 0 then 0
      else (let u = pow2 (float_exponent q - 52) in of_int (round_half_even (q / u)) * u))"

definition py_int :: "rat \<Rightarrow> int" where
  \<comment> \<open>\<open>int(x)\<close> of a float: towards zero\<close>
  "py_int x = (if 0 \<le> x then \<lfloor>x\<rfloor> else \<lceil>x\<rceil>)"

text \<open>
  \<open>datetime.now() - datetime.timedelta(days=days)\<close>, in microseconds since 1970-01-01:
  \<open>timedelta\<close> refuses more than 999999999 days, and the difference must be a
  \<open>datetime\<close>, from 0001-01-01 00:00:00 to 9999-12-31 23:59:59.999999. Both raise
  \<open>OverflowError\<close>.
\<close>

definition cutoff_date :: "int \<Rightarrow> int \<Rightarrow> pyexn + int" where
  "cutoff_date now days =
     (if 999999999 < \<bar>days\<bar>
      then Inl (OverflowError (''days='' @ str_int days
                                @ ''; must have magnitude <= 999999999''))
      else if now - days * 86400000000 < - 62135596800000000
              \<or> 253402300799999999 < now - days * 86400000000
      then Inl (OverflowError ''date value out of range'')
      else Inr (now - days * 86400000000))"

text \<open>
  \<open>int((cutoff_date - datetime(1970, 1, 1)).total_seconds() * 1000000) +
  11644473600000000\<close>: \<open>total_seconds\<close> divides the microseconds by a million into a
  float, the product is a float again, and \<open>int\<close> cuts it; the sum is exact.
\<close>

definition cutoff_timestamp :: "int \<Rightarrow> int \<Rightarrow> pyexn + int" where
  "cutoff_timestamp now days =
     (case cutoff_date now days of
        Inl e \<Rightarrow> Inl e
      | Inr us \<Rightarrow>
          Inr (py_int (binary64 (binary64 (of_int us / 1000000) * 1000000))
               + 11644473600000000))"

subsection \<open>The derived columns of lines 92 to 98\<close>

definition add_columns :: "extract_env \<Rightarrow> raw_visit \<Rightarrow> pyexn + visit" where
  "add_columns env r =
     (case netloc env (raw_url r) of
        Inl e \<Rightarrow> Inl e
      | Inr host \<Rightarrow>
          Inr \<lparr> visit_time = raw_visit_time r, url = raw_url r, title = raw_title r,
                duration_seconds = raw_duration_seconds r,
                hour = dt_hour (raw_visit_time r), date = dt_date (raw_visit_time r),
                day_of_week = dt_day_name (raw_visit_time r), domain = host \<rparr>)"

fun add_columns_all :: "extract_env \<Rightarrow> raw_visit list \<Rightarrow> pyexn + dataframe" where
  "add_columns_all env [] = Inr []"
| "add_columns_all env (r # rs) =
     (case add_columns env r of
        Inl e \<Rightarrow> Inl e
      | Inr v \<Rightarrow> (case add_columns_all env rs of Inl e \<Rightarrow> Inl e | Inr vs \<Rightarrow> Inr (v # vs)))"

subsection \<open>extract_chrome_history\<close>

text \<open>
  \<open>shutil.copy2(src, dst)\<close> writes \<open>dst\<close>, or, when \<open>dst\<close> is a directory, the file of
  the source's name in it; the history database is named \<open>History\<close> on every platform.
  \<open>sqlite3.connect\<close> of a directory raises.
\<close>

definition copy_destination :: "extract_env \<Rightarrow> path" where
  "copy_destination env =
     (if temp_is_dir env then temp_copy env @ ''/History'' else temp_copy env)"

definition sqlite3_connect :: "extract_env \<Rightarrow> string option" where
  "sqlite3_connect env =
     (if temp_is_dir env then Some ''unable to open database file'' else connect_result env)"

text \<open>
  The \<open>try\<close> block, in the order of its statements: the copy (line 64), the connection
  (67), the cutoff (70, 71), the query (88), \<open>conn.close()\<close> (89), the derived columns
  (92 to 98). Its result comes with a flag: whether the block was left with the
  connection open, which is so when the cutoff or the query raises, since \<open>conn.close()\<close>
  is then skipped.
\<close>

definition extract_try ::
  "extract_env \<Rightarrow> int \<Rightarrow> path \<Rightarrow> string \<Rightarrow> world
     \<Rightarrow> (pyexn + dataframe) \<times> bool \<times> world" where
  "extract_try env days history_db content w =
     (case copy_result env of
        CopyRaises msg partial \<Rightarrow>
          (Inl (OSError msg), False,
           case partial of
             None \<Rightarrow> w
           | Some part \<Rightarrow>
               w\<lparr>files := (files w)(copy_destination env \<mapsto> part),
                 events := events w @ [Copied history_db (copy_destination env)]\<rparr>)
      | CopyDone \<Rightarrow>
          (let w1 = w\<lparr>files := (files w)(copy_destination env \<mapsto> content),
                       events := events w @ [Copied history_db (copy_destination env)]\<rparr>
           in case sqlite3_connect env of
                Some msg \<Rightarrow> (Inl (SqliteError msg), False, w1)
              | None \<Rightarrow>
                  (case cutoff_timestamp (now_us env) days of
                     Inl e \<Rightarrow> (Inl e, True, w1)
                   | Inr cutoff \<Rightarrow>
                       (case query_result env cutoff of
                          RaisesSqlite msg \<Rightarrow> (Inl (SqliteError msg), True, w1)
                        | RaisesOther msg \<Rightarrow> (Inl (OtherError msg), True, w1)
                        | Rows rs \<Rightarrow> (add_columns_all env rs, False, w1)))))"

text \<open>The two \<open>except\<close> clauses, in the source's order.\<close>

definition extract_except :: "(pyexn + dataframe) \<times> world \<Rightarrow> dataframe outcome \<times> world" where
  "extract_except rw =
     (case rw of
        (Inr df, w) \<Rightarrow> (Returned df, w)
      | (Inl (SqliteError msg), w) \<Rightarrow> (SysExit 1, say (''SQLite error: '' @ msg) w)
      | (Inl e, w) \<Rightarrow> (SysExit 1, say (''Error: '' @ exn_message e) w))"

text \<open>
  The \<open>finally\<close> clause: \<open>if temp_copy.exists(): os.remove(temp_copy)\<close>, with nothing
  around it. \<open>os.remove\<close> of a directory raises. On Windows \<open>os.remove\<close> of a file that
  the process holds open raises \<open>PermissionError\<close>, and the copy is held open while the
  connection is; elsewhere an open file can be removed. An exception raised here is what
  leaves the function, in place of the pending \<open>SystemExit\<close> or of the return.
\<close>

definition extract_finally :: "extract_env \<Rightarrow> bool \<Rightarrow> world \<Rightarrow> pyexn option \<times> world" where
  "extract_finally env connection_open w =
     (if temp_is_dir env then (Some (OSError ''os.remove of a directory''), w)
      else if temp_copy env \<in> dom (files w) then
        (if platform_system env = ''Windows'' \<and> connection_open
         then (Some (OSError ''[WinError 32] the file is being used by another process''), w)
         else (None, remove_file (temp_copy env) w))
      else (None, w))"

definition extract_chrome_history ::
  "extract_env \<Rightarrow> int \<Rightarrow> world \<Rightarrow> dataframe outcome \<times> world" where
  "extract_chrome_history env days w =
     (case get_chrome_history_path env of
        Inl e \<Rightarrow> (Uncaught e, w)
      | Inr history_db \<Rightarrow>
          (case files w history_db of
             None \<Rightarrow>
               (SysExit 1,
                say ''Please check if Chrome is installed or if the path is correct.''
                  (say (''Chrome history database not found at '' @ history_db) w))
           | Some content \<Rightarrow>
               (case extract_try env days history_db content w of
                  (r, connection_open, w1) \<Rightarrow>
                    (case extract_except (r, w1) of
                       (out, w2) \<Rightarrow>
                         (case extract_finally env connection_open w2 of
                            (None, w3) \<Rightarrow> (out, w3)
                          | (Some e, w3) \<Rightarrow> (Uncaught e, w3))))))"

section \<open>chrome_history_analyzer.py: the formatter and main\<close>

definition nl :: string where
  "nl = [CHR 0x0A]"

text \<open>
  A DataFrame as the renderers see it: column names and rows of cells. The renderers are
  library code (\<open>DataFrame.to_string\<close>, \<open>to_csv\<close>, \<open>to_json\<close>, \<open>json.dump\<close>, the
  format specifier \<open>.2f\<close>, \<open>strftime\<close>) and are parameters of the model; each is a
  function of its argument alone, which for \<open>to_string\<close> supposes that pandas' display
  options stay as they are.
\<close>

datatype cell = CInt int | CStr string | CTimestamp int | CDate int | CNone

record frame =
  columns :: "string list"
  cells :: "cell list list"

record renderers =
  to_string :: "frame \<Rightarrow> string"
  to_csv :: "frame \<Rightarrow> string"
  to_json :: "frame \<Rightarrow> string"
  json_dump :: "analysis \<Rightarrow> string"
  format_2f :: "rat option \<Rightarrow> string"
  strftime :: "string \<Rightarrow> int \<Rightarrow> string"

text \<open>\<open>pd.DataFrame(records)\<close> of a list of two-key dicts: no columns when the list is empty.\<close>

definition records_frame :: "string \<Rightarrow> ('k \<Rightarrow> cell) \<Rightarrow> ('k \<times> nat) list \<Rightarrow> frame" where
  "records_frame key_column cell_of recs =
     (if recs = [] then \<lparr> columns = [], cells = [] \<rparr>
      else \<lparr> columns = [key_column, ''count''],
             cells = map (\<lambda>(k, n). [cell_of k, CInt (int n)]) recs \<rparr>)"

definition title_cell :: "string option \<Rightarrow> cell" where
  "title_cell t = (case t of None \<Rightarrow> CNone | Some s \<Rightarrow> CStr s)"

definition recent_frame :: "dataframe \<Rightarrow> frame" where
  \<comment> \<open>\<open>df[['visit_time', 'title', 'url']].head(10)\<close>\<close>
  "recent_frame df =
     \<lparr> columns = [''visit_time'', ''title'', ''url''],
       cells = map (\<lambda>r. [CTimestamp (visit_time r), title_cell (title r), CStr (url r)])
                   (take 10 df) \<rparr>"

definition full_frame :: "dataframe \<Rightarrow> frame" where
  "full_frame df =
     \<lparr> columns = [''visit_time'', ''url'', ''title'', ''duration_seconds'', ''hour'', ''date'',
                  ''day_of_week'', ''domain''],
       cells = map (\<lambda>r. [CTimestamp (visit_time r), CStr (url r), title_cell (title r),
                          CInt (duration_seconds r), CInt (hour r), CDate (date r),
                          CStr (day_of_week r), CStr (domain r)]) df \<rparr>"

definition generate_llm_prompt :: "renderers \<Rightarrow> analysis \<Rightarrow> dataframe \<Rightarrow> string" where
  "generate_llm_prompt lib analysis_results df =
     (let hourly = records_frame ''hour'' CInt (hourly_activity analysis_results);
          top = records_frame ''domain'' CStr (top_domains analysis_results)
      in concat
        [ nl,
          ''    Analyze this Chrome browsing history data:'', nl,
          ''    '', nl,
          ''    1. Hourly activity pattern:'', nl,
          ''    '', to_string lib hourly, nl,
          ''    '', nl,
          ''    2. Top domains visited:'', nl,
          ''    '', to_string lib top, nl,
          ''    '', nl,
          ''    3. Average first browsing hour: '',
                 format_2f lib (avg_first_hour analysis_results), nl,
          ''    4. Average last browsing hour: '',
                 format_2f lib (avg_last_hour analysis_results), nl,
          ''    '', nl,
          ''    5. Sample of recent URLs and titles:'', nl,
          ''    '', to_string lib (recent_frame df), nl,
          ''    '', nl,
          ''    Based on this data, please provide insights about:'', nl,
          ''    1. Sleep patterns (when the person likely wakes up and goes to sleep)'', nl,
          ''    2. Work focus and productivity patterns'', nl,
          ''    3. Main interests based on content'', nl,
          ''    4. Recommendations for better time management'', nl,
          ''    '' ])"

definition title_str :: "string option \<Rightarrow> string" where
  "title_str t = (case t of None \<Rightarrow> ''None'' | Some s \<Rightarrow> s)"

definition markdown_report :: "renderers \<Rightarrow> int \<Rightarrow> dataframe \<Rightarrow> analysis \<Rightarrow> string" where
  "markdown_report lib now df analysis_results =
     concat
       ([ ''# Chrome Browsing History Analysis'', nl, nl,
          ''Analysis date: '', strftime lib ''%Y-%m-%d %H:%M:%S'' now, nl, nl,
          ''## Activity by Hour'', nl, nl ]
        @ map (\<lambda>(h, n). ''- '' @ str_int h @ '':00 - '' @ str_nat n @ '' visits'' @ nl)
              (hourly_activity analysis_results)
        @ [ nl, ''## Top Domains'', nl, nl ]
        @ map (\<lambda>(d, n). ''- '' @ d @ '': '' @ str_nat n @ '' visits'' @ nl)
              (take 10 (top_domains analysis_results))
        @ [ nl, ''## Estimated Sleep Patterns'', nl, nl,
            ''- Average first browsing hour: '',
               format_2f lib (avg_first_hour analysis_results), nl,
            ''- Average last browsing hour: '',
               format_2f lib (avg_last_hour analysis_results), nl,
            nl, ''## Recent Browsing Activity'', nl, nl ]
        @ map (\<lambda>r. ''- '' @ strftime lib ''%Y-%m-%d %H:%M:%S'' (visit_time r) @ '': [''
                     @ title_str (title r) @ '']('' @ url r @ '')'' @ nl)
              (take 10 df))"

definition save_output ::
  "renderers \<Rightarrow> int \<Rightarrow> dataframe \<Rightarrow> analysis \<Rightarrow> string \<Rightarrow> string \<Rightarrow> world \<Rightarrow> world" where
  "save_output lib now df analysis_results output_format output_prefix w =
     say ''Output saved to output directory''
       (if output_format = ''csv'' then
          write_file (''output/'' @ output_prefix @ ''_domains.csv'')
            (to_csv lib (records_frame ''domain'' CStr (top_domains analysis_results)))
            (write_file (''output/'' @ output_prefix @ ''_hourly.csv'')
               (to_csv lib (records_frame ''hour'' CInt (hourly_activity analysis_results)))
               (write_file (''output/'' @ output_prefix @ ''_raw.csv'')
                  (to_csv lib (full_frame df)) w))
        else if output_format = ''json'' then
          write_file (''output/'' @ output_prefix @ ''_analysis.json'')
            (json_dump lib analysis_results)
            (write_file (''output/'' @ output_prefix @ ''_raw.json'')
               (to_json lib (full_frame df)) w)
        else if output_format = ''markdown'' then
          write_file (''output/'' @ output_prefix @ ''_report.md'')
            (markdown_report lib now df analysis_results) w
        else w)"

text \<open>
  The script as a process: an uncaught exception ends it with status 1, \<open>sys.exit(c)\<close>
  with status \<open>c\<close>, a normal return of \<open>main\<close> with status 0.
\<close>

definition exit_status :: "'a outcome \<Rightarrow> int" where
  "exit_status r = (case r of Returned x \<Rightarrow> 0 | SysExit c \<Rightarrow> c | Uncaught e \<Rightarrow> 1)"

record analyzer_args =
  arg_days :: int
  arg_output :: string

definition analyzer_main ::
  "extract_env \<Rightarrow> renderers \<Rightarrow> analyzer_args \<Rightarrow> world \<Rightarrow> unit outcome \<times> world" where
  "analyzer_main env lib args w =
     (if arg_output args \<notin> set [''csv'', ''json'', ''markdown''] then (SysExit 2, w)
      else
        case extract_chrome_history env (arg_days args)
               (say (''Extracting Chrome history for the past '' @ str_int (arg_days args)
                       @ '' days...'') w) of
          (SysExit c, w1) \<Rightarrow> (SysExit c, w1)
        | (Uncaught e, w1) \<Rightarrow> (Uncaught e, w1)
        | (Returned df, w1) \<Rightarrow>
            (let w2 = say (''Analyzing '' @ str_nat (length df)
                             @ '' browsing history entries...'') w1
             in case analyze_browsing_patterns df of
                  Inl e \<Rightarrow> (Uncaught e, w2)
                | Inr analysis_results \<Rightarrow>
                    (let w3 = say ''Generating LLM prompt...'' w2;
                         prompt = generate_llm_prompt lib analysis_results df;
                         w4 = write_file ''output/llm_prompt.txt'' prompt w3;
                         w5 = say (''Saving results in '' @ arg_output args @ '' format...'') w4;
                         w6 = save_output lib (now_us env div 1000000) df analysis_results
                                (arg_output args) ''chrome_history'' w5;
                         w7 = say ''Analysis complete!'' w6
                     in (Returned (),
                         say (''To get AI insights, use the generated prompt in ''
                                @ ''output/llm_prompt.txt with your preferred LLM.'') w7))))"

section \<open>llm_integration.py\<close>

text \<open>
  The environment of the submission step: which optional packages import, the process
  environment variables, and what each backend call does with a prompt (its result or
  the exception it raises). An HTTP response has a status, a body text and what its
  \<open>json()\<close> method yields: the decoded body or an exception.
\<close>

record http_response =
  status_code :: int
  body_text :: string
  json_body :: "pyexn + pyval"

record llm_env =
  openai_installed :: bool
  anthropic_installed :: bool
  requests_installed :: bool
  environ :: "string \<rightharpoonup> string"
  openai_create :: "string \<Rightarrow> string \<Rightarrow> pyexn + pyval"
  anthropic_create :: "string \<Rightarrow> string \<Rightarrow> pyexn + pyval"
  requests_post :: "string \<Rightarrow> pyval \<Rightarrow> pyexn + http_response"

definition analyze_with_openai :: "llm_env \<Rightarrow> string \<Rightarrow> world \<Rightarrow> pyval \<times> world" where
  "analyze_with_openai env prompt w =
     (if \<not> openai_installed env
      then (PNone, say ''OpenAI package not installed. Install it with: pip install openai'' w)
      else
        case environ env ''OPENAI_API_KEY'' of
          None \<Rightarrow>
            (PNone,
             say (''OpenAI API key not found. Set it as an environment variable: ''
                    @ ''OPENAI_API_KEY'') w)
        | Some api_key \<Rightarrow>
            if api_key = []
            then (PNone,
                  say (''OpenAI API key not found. Set it as an environment variable: ''
                         @ ''OPENAI_API_KEY'') w)
            else
              (case openai_create env api_key prompt of
                Inr content \<Rightarrow> (content, w)
              | Inl e \<Rightarrow> (PNone, say (''Error calling OpenAI API: '' @ exn_message e) w)))"

definition analyze_with_anthropic :: "llm_env \<Rightarrow> string \<Rightarrow> world \<Rightarrow> pyval \<times> world" where
  "analyze_with_anthropic env prompt w =
     (if \<not> anthropic_installed env
      then (PNone,
            say ''Anthropic package not installed. Install it with: pip install anthropic'' w)
      else
        case environ env ''ANTHROPIC_API_KEY'' of
          None \<Rightarrow>
            (PNone,
             say (''Anthropic API key not found. Set it as an environment variable: ''
                    @ ''ANTHROPIC_API_KEY'') w)
        | Some api_key \<Rightarrow>
            if api_key = []
            then (PNone,
                  say (''Anthropic API key not found. Set it as an environment variable: ''
                         @ ''ANTHROPIC_API_KEY'') w)
            else
              (case anthropic_create env api_key prompt of
                Inr content \<Rightarrow> (content, w)
              | Inl e \<Rightarrow> (PNone, say (''Error calling Anthropic API: '' @ exn_message e) w)))"

text \<open>
  \<open>d.get(key, default)\<close> on a decoded JSON object, whose entries are listed in the order
  of the body: a repeated key keeps its last value.
\<close>

definition dict_get :: "(string \<times> pyval) list \<Rightarrow> string \<Rightarrow> pyval \<Rightarrow> pyval" where
  "dict_get kvs k dflt = (case map_of (rev kvs) k of None \<Rightarrow> dflt | Some v \<Rightarrow> v)"

definition ollama_url :: string where
  "ollama_url = ''http://localhost:11434/api/generate''"

text \<open>
  The \<open>try\<close> block of the local backend: \<open>Inl\<close> is an exception raised inside it (by
  \<open>requests.post\<close>, by \<open>response.json()\<close>, or by \<open>.get\<close> on a body that is not an
  object), which the \<open>except\<close> clause of \<open>analyze_with_local_llm\<close> then handles.
\<close>

definition ollama_request :: "string \<Rightarrow> pyval" where
  "ollama_request prompt =
     PDict [(''model'', PStr ''llama3''), (''prompt'', PStr prompt), (''stream'', PBool False)]"

definition no_response :: string where
  "no_response = ''No response from local LLM''"

definition local_llm_try :: "llm_env \<Rightarrow> string \<Rightarrow> world \<Rightarrow> pyexn + pyval \<times> world" where
  "local_llm_try env prompt w =
     (case requests_post env ollama_url (ollama_request prompt) of
        Inl e \<Rightarrow> Inl e
      | Inr response \<Rightarrow>
          if status_code response = 200 then
            (case json_body response of
               Inl e \<Rightarrow> Inl e
             | Inr (PDict kvs) \<Rightarrow>
                 Inr (dict_get kvs ''response'' (PStr no_response), w)
             | Inr other \<Rightarrow> Inl (AttributeError ''object has no attribute get''))
          else
            Inr (PNone,
                 say (''Error from Ollama API: '' @ str_int (status_code response) @ '' - ''
                        @ body_text response) w))"

definition analyze_with_local_llm :: "llm_env \<Rightarrow> string \<Rightarrow> world \<Rightarrow> pyval \<times> world" where
  "analyze_with_local_llm env prompt w =
     (if \<not> requests_installed env
      then (PNone,
            say ''Requests package not installed. Install it with: pip install requests'' w)
      else
        case local_llm_try env prompt w of
          Inr r \<Rightarrow> r
        | Inl e \<Rightarrow>
            (PNone,
             say ''Make sure Ollama is running. Install from: https://ollama.ai/''
               (say (''Error calling local LLM: '' @ exn_message e) w)))"

definition insights_heading :: string where
  "insights_heading = ''# Chrome History Analysis Insights'' @ nl @ nl"

text \<open>
  \<open>save_insights\<close>: the file is opened for writing (emptied), the heading is written,
  then the insights; \<open>f.write\<close> of an object that is not a string raises \<open>TypeError\<close>
  and the \<open>with\<close> block closes the file with the heading alone.
\<close>

definition save_insights :: "pyval \<Rightarrow> path \<Rightarrow> world \<Rightarrow> unit outcome \<times> world" where
  "save_insights insights output_file w =
     (case insights of
        PStr s \<Rightarrow>
          (Returned (),
           say (''Insights saved to '' @ output_file)
             (write_file output_file (insights_heading @ s) w))
      | other \<Rightarrow>
          (Uncaught (TypeError ''write() argument must be str''),
           write_file output_file insights_heading w))"

definition insights_file :: path where
  "insights_file = ''output/llm_insights.md''"

record llm_args =
  provider :: string
  prompt_file :: path

definition llm_main :: "llm_env \<Rightarrow> llm_args \<Rightarrow> world \<Rightarrow> unit outcome \<times> world" where
  "llm_main env args w =
     (if provider args \<notin> set [''openai'', ''anthropic'', ''local''] then (SysExit 2, w)
      else
        case files w (prompt_file args) of
          None \<Rightarrow>
            (Returned (),
             say ''Run chrome_history_analyzer.py first to generate the prompt file.''
               (say (''Prompt file not found: '' @ prompt_file args) w))
        | Some prompt \<Rightarrow>
            (let w1 = say (''Analyzing browsing history with '' @ provider args @ ''...'') w;
                 (insights, w2) =
                   (if provider args = ''openai'' then analyze_with_openai env prompt w1
                    else if provider args = ''anthropic''
                    then analyze_with_anthropic env prompt w1
                    else analyze_with_local_llm env prompt w1)
             in if truthy insights
                then save_insights insights insights_file
                       (w2\<lparr>printed := printed w2 @ [PStr (nl @ ''=== LLM Insights ==='' @ nl),
                                                     insights]\<rparr>)
                else (Returned (), say ''Failed to get insights from LLM.'' w2)))"

section \<open>daily_summary.py\<close>

text \<open>
  The orchestrator runs the two other scripts as child processes. What a child does is its
  environment: \<open>run_process\<close> gives, for a command line and the world it starts in, the
  child's exit status and the world it leaves. \<open>subprocess.run(cmd, check=True)\<close> raises
  \<open>CalledProcessError\<close> on a non-zero status, which nothing in the script catches.
\<close>

record daily_env =
  run_process :: "string list \<Rightarrow> world \<Rightarrow> int \<times> world"
  today :: string

definition subprocess_run :: "daily_env \<Rightarrow> string list \<Rightarrow> world \<Rightarrow> int \<times> world" where
  "subprocess_run env cmd w = run_process env cmd (w\<lparr>events := events w @ [Ran cmd]\<rparr>)"

definition report_file :: path where
  "report_file = ''output/chrome_history_report.md''"

definition generate_daily_summary ::
  "daily_env \<Rightarrow> int \<Rightarrow> bool \<Rightarrow> world \<Rightarrow> unit outcome \<times> world" where
  "generate_daily_summary env days analyze w =
     (case subprocess_run env
             [''python'', ''chrome_history_analyzer.py'', ''--days'', str_int days,
              ''--output'', ''markdown''] w of
        (rc, w1) \<Rightarrow>
          if rc \<noteq> 0 then (Uncaught (CalledProcessError rc), w1)
          else
            (case files w1 report_file of
               None \<Rightarrow> (Returned (), say (''Output file not found: '' @ report_file) w1)
             | Some report \<Rightarrow>
                 (let dated_output_file =
                        ''output/daily/'' @ today env @ ''_chrome_history.md'';
                      w2 = say (''Daily summary saved to '' @ dated_output_file)
                             (write_file dated_output_file report w1)
                  in if analyze then
                       (case subprocess_run env [''python'', ''llm_integration.py''] w2 of
                          (rc2, w3) \<Rightarrow>
                            if rc2 \<noteq> 0 then (Uncaught (CalledProcessError rc2), w3)
                            else
                              (case files w3 insights_file of
                                 None \<Rightarrow> (Returned (), w3)
                               | Some insights \<Rightarrow>
                                   (let dated_insights_file =
                                          ''output/daily/'' @ today env @ ''_insights.md''
                                    in (Returned (),
                                        say (''Daily insights saved to ''
                                               @ dated_insights_file)
                                          (write_file dated_insights_file insights w3)))))
                     else (Returned (), w2))))"

section \<open>Conditions on the environment\<close>

text \<open>
  A statement between \<open>sqlite3.connect\<close> and \<open>conn.close()\<close> raises: the copy was made,
  the connection was opened, and the cutoff of lines 70 and 71 or the query of line 88
  raises. (No directory stands at the temporary path.)
\<close>

definition raises_while_connected :: "extract_env \<Rightarrow> int \<Rightarrow> bool" where
  "raises_while_connected env days \<longleftrightarrow>
     copy_result env = CopyDone \<and> connect_result env = None \<and>
     (case cutoff_timestamp (now_us env) days of
        Inl e \<Rightarrow> True
      | Inr cutoff \<Rightarrow>
          (case query_result env cutoff of
             Rows rs \<Rightarrow> False
           | RaisesSqlite msg \<Rightarrow> True
           | RaisesOther msg \<Rightarrow> True))"

section \<open>Concrete inputs\<close>

text \<open>Frames, worlds and environments at which the theorems below are evaluated.\<close>

definition one_visit_df :: dataframe where
  "one_visit_df = [mk_visit 1704099600 ''https://a.com/'' ''a.com'']"

definition two_day_df :: dataframe where
  \<comment> \<open>Monday 2024-01-01 09:00 and Tuesday 2024-01-02 22:00\<close>
  "two_day_df =
     [ mk_visit 1704232800 ''https://b.com/'' ''b.com'',
       mk_visit 1704099600 ''https://a.com/'' ''a.com'' ]"

definition empty_world :: world where
  "empty_world = \<lparr> files = Map.empty, printed = [], events = [] \<rparr>"

definition history_path :: path where
  "history_path = ''/home/u/.config/google-chrome/Default/History''"

definition history_world :: world where
  "history_world = \<lparr> files = [history_path \<mapsto> ''SQLite format 3''], printed = [], events = [] \<rparr>"

definition sample_env :: "string \<Rightarrow> copy_outcome \<Rightarrow> query_outcome \<Rightarrow> extract_env" where
  "sample_env sys c q =
     \<lparr> platform_system = sys, home = ''/home/u'', now_us = 1704150000000000,
       temp_is_dir = False, copy_result = c, connect_result = None,
       query_result = (\<lambda>cutoff. q), netloc = (\<lambda>u. Inr u) \<rparr>"

definition linux_env :: "copy_outcome \<Rightarrow> query_outcome \<Rightarrow> extract_env" where
  "linux_env c q = sample_env ''Linux'' c q"

definition windows_history_path :: path where
  "windows_history_path = ''/home/u/AppData/Local/Google/Chrome/User Data/Default/History''"

definition windows_history_world :: world where
  "windows_history_world =
     \<lparr> files = [windows_history_path \<mapsto> ''SQLite format 3''], printed = [], events = [] \<rparr>"

definition plain_renderers :: renderers where
  "plain_renderers =
     \<lparr> to_string = (\<lambda>f. concat (columns f)), to_csv = (\<lambda>f. []), to_json = (\<lambda>f. []),
       json_dump = (\<lambda>a. []),
       format_2f = (\<lambda>x. case x of None \<Rightarrow> ''nan'' | Some q \<Rightarrow> ''num''),
       strftime = (\<lambda>fmt t. fmt) \<rparr>"

definition csv_args :: analyzer_args where
  "csv_args = \<lparr> arg_days = 30, arg_output = ''csv'' \<rparr>"

definition scenario_analysis :: analysis where
  "scenario_analysis =
     \<lparr> hourly_activity = [(9, 2), (23, 1)], daily_activity = [(''Monday'', 3)],
       top_domains = [(''a.com'', 2), (''b.com'', 1)],
       avg_first_hour = Some 9, avg_last_hour = Some 23 \<rparr>"

definition quiet_children :: daily_env where
  "quiet_children = \<lparr> run_process = (\<lambda>cmd w. (0, w)), today = ''2024-01-01'' \<rparr>"

definition analyzer_cmd_1 :: "string list" where
  "analyzer_cmd_1 =
     [''python'', ''chrome_history_analyzer.py'', ''--days'', ''1'', ''--output'', ''markdown'']"

definition no_key_env :: llm_env where
  "no_key_env =
     \<lparr> openai_installed = True, anthropic_installed = False, requests_installed = False,
       environ = Map.empty,
       openai_create = (\<lambda>k p. Inr (PStr ''insights'')),
       anthropic_create = (\<lambda>k p. Inl (OtherError ''not installed'')),
       requests_post = (\<lambda>u body. Inl (OtherError ''not installed'')) \<rparr>"

definition prompt_world :: world where
  "prompt_world =
     \<lparr> files = [''output/llm_prompt.txt'' \<mapsto> ''Analyze this'',
                 ''output/llm_insights.md'' \<mapsto> ''old insights''],
       printed = [], events = [] \<rparr>"

definition default_args :: "string \<Rightarrow> llm_args" where
  "default_args p = \<lparr> provider = p, prompt_file = ''output/llm_prompt.txt'' \<rparr>"

definition ollama :: "http_response \<Rightarrow> llm_env" where
  "ollama resp =
     \<lparr> openai_installed = False, anthropic_installed = False, requests_installed = True,
       environ = Map.empty,
       openai_create = (\<lambda>k p. Inl (OtherError ''not installed'')),
       anthropic_create = (\<lambda>k p. Inl (OtherError ''not installed'')),
       requests_post = (\<lambda>u body. Inr resp) \<rparr>"

definition null_response :: http_response where
  "null_response =
     \<lparr> status_code = 200, body_text = ''{response: null}'',
       json_body = Inr (PDict [(''response'', PNone)]) \<rparr>"

definition empty_object_response :: http_response where
  "empty_object_response =
     \<lparr> status_code = 200, body_text = ''{}'', json_body = Inr (PDict []) \<rparr>"

section \<open>The pattern analyzer\<close>

subsection \<open>What the statements around the sort compute\<close>

lemma sum_list_indicator:
  "distinct ks \<Longrightarrow> a \<in> set ks \<Longrightarrow>
     sum_list (map (\<lambda>k. if a = k then 1 else 0) ks) = (1::nat)"
  by (simp add: sum_list_distinct_conv_sum_set)

lemma sum_list_group_sizes:
  "distinct ks \<Longrightarrow> f ` set xs \<subseteq> set ks \<Longrightarrow>
     sum_list (map (\<lambda>k. length (filter (\<lambda>r. f r = k) xs)) ks) = length xs"
proof (induction xs)
  case Nil
  then show ?case by simp
next
  case (Cons x xs)
  have split: "\<And>k. length (filter (\<lambda>r. f r = k) (x # xs)) =
                 (if f x = k then 1 else 0) + length (filter (\<lambda>r. f r = k) xs)"
    by simp
  have "sum_list (map (\<lambda>k. length (filter (\<lambda>r. f r = k) (x # xs))) ks) =
        sum_list (map (\<lambda>k. if f x = k then 1 else 0) ks) +
        sum_list (map (\<lambda>k. length (filter (\<lambda>r. f r = k) xs)) ks)"
    unfolding split by (simp add: sum_list_addf)
  also have "\<dots> = 1 + length xs"
    using Cons by (simp add: sum_list_indicator)
  finally show ?case by simp
qed

text \<open>
  The counts of a \<open>groupby(...).size()\<close> add up to the number of rows, whatever the
  column: this holds of the hourly and of the weekday table that lines 124 and 127 build.
\<close>

lemma groupby_size_total: "sum_list (map snd (groupby_size col df)) = length df"
proof -
  have "sum_list (map snd (groupby_size col df)) =
        sum_list (map (\<lambda>k. length (filter (\<lambda>r. col r = k) df))
                      (sort (remdups (map col df))))"
    by (simp add: groupby_size_def comp_def)
  also have "\<dots> = length df"
    by (rule sum_list_group_sizes) auto
  finally show ?thesis .
qed

lemma dt_hour_range: "0 \<le> dt_hour t \<and> dt_hour t \<le> 23"
  by (simp add: dt_hour_def)

lemma sum_list_bounds:
  "\<forall>x\<in>set xs. lo \<le> x \<and> x \<le> hi \<Longrightarrow>
     lo * int (length xs) \<le> sum_list xs \<and> sum_list xs \<le> hi * int (length xs)"
  by (induction xs) (auto simp: algebra_simps)

lemma mean_bounds:
  assumes "xs \<noteq> []" and "\<forall>x\<in>set xs. lo \<le> x \<and> x \<le> hi"
  shows "\<exists>m. mean xs = Some m \<and> of_int lo \<le> m \<and> m \<le> of_int hi"
proof -
  have n: "0 < length xs" using assms(1) by simp
  have b: "lo * int (length xs) \<le> sum_list xs \<and> sum_list xs \<le> hi * int (length xs)"
    using sum_list_bounds [OF assms(2)] .
  have "(of_int lo :: rat) * of_nat (length xs) \<le> of_int (sum_list xs)"
    using b by (metis of_int_le_iff of_int_mult of_int_of_nat_eq)
  moreover have "(of_int (sum_list xs) :: rat) \<le> of_int hi * of_nat (length xs)"
    using b by (metis of_int_le_iff of_int_mult of_int_of_nat_eq)
  ultimately show ?thesis
    using n assms(1) by (simp add: mean_def pos_le_divide_eq pos_divide_le_eq)
qed

text \<open>
  The mean of the first hours, one per date of the frame, as lines 133 to 143 would
  compute it: NaN on the empty frame, a value between 0 and 23 otherwise (and the same
  for the last hours).
\<close>

lemma mean_first_hour_empty:
  "mean (map (\<lambda>(d, first_browse, last_browse). dt_hour first_browse)
          (groupby_first_last [])) = None"
  by (simp add: groupby_first_last_def mean_def)

lemma mean_first_hour_range:
  assumes "df \<noteq> []"
  shows "\<exists>m. mean (map (\<lambda>(d, first_browse, last_browse). dt_hour first_browse)
                      (groupby_first_last df)) = Some m \<and> 0 \<le> m \<and> m \<le> 23"
proof -
  let ?hs = "map (\<lambda>(d, first_browse, last_browse). dt_hour first_browse)
               (groupby_first_last df)"
  have "set (map date df) \<noteq> {}"
    using assms by simp
  then have "sort (remdups (map date df)) \<noteq> []"
    by (metis set_empty set_remdups set_sort)
  then have ne: "?hs \<noteq> []"
    by (simp add: groupby_first_last_def)
  have "\<forall>x\<in>set ?hs. 0 \<le> x \<and> x \<le> 23"
    using dt_hour_range by (auto simp: groupby_first_last_def)
  from mean_bounds [OF ne this] show ?thesis
    by simp
qed

subsection \<open>The call of \<open>sort_values\<close>\<close>

lemma sort_values_descending:
  "sort_values by [(''descending'', v)] rs =
     Inl (TypeError ''sort_values() got an unexpected keyword argument descending'')"
  by (simp add: sort_values_def sort_values_keywords_def)

text \<open>
  C1. The claim: for every non-empty set of visit records, \<open>top_domains\<close> is the table of
  per-domain counts in descending order of count, ties in a fixed order, cut to 20 rows.
  The code: line 130 passes \<open>descending=True\<close> to \<open>sort_values\<close>, a keyword the method
  does not have, so the call raises \<open>TypeError\<close> and \<open>analyze_browsing_patterns\<close>
  returns nothing, for every frame.
\<close>

theorem analyzer_sort_raises:
  "analyze_browsing_patterns df =
     Inl (TypeError ''sort_values() got an unexpected keyword argument descending'')"
  by (simp add: analyze_browsing_patterns_def sort_values_descending)

text \<open>
  C2. The claim: on the three records of 2024-01-01 at hours 9, 9 and 23 with domains
  a.com, a.com and b.com the analyzer returns hourly counts 9:2 and 23:1, top domains
  (a.com, 2), (b.com, 1) and average first and last hours 9 and 23. The code: the hourly
  table and the per-domain counts it builds on that frame are those of the claim, and the
  sort of line 130 then raises, so that nothing is returned.
\<close>

theorem scenario_analysis_raises:
  "groupby_size hour scenario_df = [(9, 2), (23, 1)] \<and>
   groupby_size domain scenario_df = [(''a.com'', 2), (''b.com'', 1)] \<and>
   analyze_browsing_patterns scenario_df =
     Inl (TypeError ''sort_values() got an unexpected keyword argument descending'')"
proof -
  have "groupby_size hour scenario_df = [(9, 2), (23, 1)]"
    by (simp add: groupby_size_def scenario_df_def mk_visit_def dt_hour_def)
  moreover have "groupby_size domain scenario_df = [(''a.com'', 2), (''b.com'', 1)]"
    by code_simp
  moreover have "analyze_browsing_patterns scenario_df =
      Inl (TypeError ''sort_values() got an unexpected keyword argument descending'')"
    by (simp add: analyze_browsing_patterns_def sort_values_descending)
  ultimately show ?thesis by simp
qed

text \<open>
  C3. The claim: for every non-empty set of visit records the hourly counts and the
  weekday counts of the analyzer both add up to the number of records. The code, on a
  frame of two records: both tables are built and both add up to 2, and the sort of line
  130 then raises, so that the analyzer returns neither table.
\<close>

theorem counts_not_returned:
  "sum_list (map snd (groupby_size hour two_day_df)) = 2 \<and>
   sum_list (map snd (groupby_size day_of_week two_day_df)) = 2 \<and>
   analyze_browsing_patterns two_day_df =
     Inl (TypeError ''sort_values() got an unexpected keyword argument descending'')"
proof -
  have "length two_day_df = 2"
    by (simp add: two_day_df_def)
  then show ?thesis
    by (simp add: groupby_size_total analyze_browsing_patterns_def sort_values_descending)
qed

text \<open>
  C4. The claim: the two averages are means over one first and one last browsing hour per
  date present, lie in [0, 23] when a date is present, and are NaN on the empty input.
  The code: the statements that would compute them (lines 133 to 144) come after the
  sort of line 130, which raises on the empty frame and on a frame with one record alike.
\<close>

theorem averages_not_produced:
  "analyze_browsing_patterns [] =
     Inl (TypeError ''sort_values() got an unexpected keyword argument descending'') \<and>
   analyze_browsing_patterns one_visit_df =
     Inl (TypeError ''sort_values() got an unexpected keyword argument descending'')"
  by (simp add: analyze_browsing_patterns_def sort_values_descending)

section \<open>The history extractor\<close>

lemma files_say [simp]: "files (say s w) = files w"
  by (simp add: say_def)

lemma events_say [simp]: "events (say s w) = events w"
  by (simp add: say_def)

lemma printed_say [simp]: "printed (say s w) = printed w @ [PStr s]"
  by (simp add: say_def)

lemma extract_except_files [simp]: "files (snd (extract_except (r, w))) = files w"
  by (auto simp: extract_except_def split: sum.splits pyexn.splits)

lemma extract_except_events [simp]: "events (snd (extract_except (r, w))) = events w"
  by (auto simp: extract_except_def split: sum.splits pyexn.splits)

lemma history_path_linux:
  "get_chrome_history_path (linux_env c q) = Inr history_path"
  by (simp add: get_chrome_history_path_def linux_env_def sample_env_def history_path_def)

lemma history_path_windows:
  "get_chrome_history_path (sample_env ''Windows'' c q) = Inr windows_history_path"
  by (simp add: get_chrome_history_path_def sample_env_def windows_history_path_def)

lemma sample_cutoff: "cutoff_timestamp 1704150000000000 30 = Inr 13346031600000000"
  by code_simp

text \<open>What the \<open>try\<close> block leaves: the world after the copy, whatever follows it.\<close>

lemma extract_try_world:
  "snd (snd (extract_try env days db content w)) =
     (case copy_result env of
        CopyDone \<Rightarrow>
          w\<lparr>files := (files w)(copy_destination env \<mapsto> content),
            events := events w @ [Copied db (copy_destination env)]\<rparr>
      | CopyRaises msg None \<Rightarrow> w
      | CopyRaises msg (Some part) \<Rightarrow>
          w\<lparr>files := (files w)(copy_destination env \<mapsto> part),
            events := events w @ [Copied db (copy_destination env)]\<rparr>)"
  by (simp add: extract_try_def Let_def
      split: copy_outcome.splits option.splits sum.splits query_outcome.splits)

text \<open>When the \<open>try\<close> block is left with the connection open.\<close>

lemma extract_try_connection:
  "\<not> temp_is_dir env \<Longrightarrow>
     fst (snd (extract_try env days db content w)) = raises_while_connected env days"
  by (simp add: extract_try_def raises_while_connected_def sqlite3_connect_def Let_def
      split: copy_outcome.splits option.splits sum.splits query_outcome.splits)

lemma extract_run:
  assumes "get_chrome_history_path env = Inr db" and "files w db = Some content"
  shows "extract_chrome_history env days w =
           (case extract_finally env (fst (snd (extract_try env days db content w)))
                   (snd (extract_except (fst (extract_try env days db content w),
                                         snd (snd (extract_try env days db content w))))) of
              (None, w3) \<Rightarrow>
                (fst (extract_except (fst (extract_try env days db content w),
                                      snd (snd (extract_try env days db content w)))), w3)
            | (Some e, w3) \<Rightarrow> (Uncaught e, w3))"
  using assms by (auto simp: extract_chrome_history_def split: prod.splits option.splits)

text \<open>
  C5. The claim: every invocation of the extractor creates exactly one temporary copy and
  removes it before it ends, on every exit path, the missing source included. The code
  tests for the source before the \<open>try\<close> statement: with no history database the
  extractor exits with status 1 and has performed no file operation, so no copy was made.
\<close>

theorem extractor_missing_source_counterexample:
  "fst (extract_chrome_history (linux_env CopyDone (Rows [])) 30 empty_world) = SysExit 1 \<and>
   events (snd (extract_chrome_history (linux_env CopyDone (Rows [])) 30 empty_world)) = []"
  by (simp add: extract_chrome_history_def get_chrome_history_path_def linux_env_def
      sample_env_def empty_world_def)

text \<open>
  C5 as amended. On a supported platform, an invocation that does not find the history
  database prints its two lines and exits with status 1, having created and removed
  nothing. An invocation that finds it, with no directory at the temporary path, ends
  with no file at the temporary path on every exit path (records returned, SQLite error,
  any other exception), provided that it does not run on Windows with a statement raising
  between \<open>sqlite3.connect\<close> and \<open>conn.close()\<close>; a copy that succeeds, or that fails
  leaving a partial file, is made once and removed once, and a copy that fails leaving
  nothing makes none, the clean-up then removing only a file that was there before.
  Nothing is said of the excluded runs.
\<close>

theorem extractor_temp_copy:
  assumes "get_chrome_history_path env = Inr db"
  shows "(files w db = None \<longrightarrow>
            extract_chrome_history env days w =
              (SysExit 1,
               say ''Please check if Chrome is installed or if the path is correct.''
                 (say (''Chrome history database not found at '' @ db) w))) \<and>
         (\<forall>content.
            files w db = Some content \<and> \<not> temp_is_dir env \<and>
            (platform_system env \<noteq> ''Windows'' \<or> \<not> raises_while_connected env days) \<longrightarrow>
              files (snd (extract_chrome_history env days w)) (temp_copy env) = None \<and>
              events (snd (extract_chrome_history env days w)) =
                events w @
                (case copy_result env of
                   CopyDone \<Rightarrow> [Copied db (temp_copy env), Removed (temp_copy env)]
                 | CopyRaises msg (Some part) \<Rightarrow>
                     [Copied db (temp_copy env), Removed (temp_copy env)]
                 | CopyRaises msg None \<Rightarrow>
                     if temp_copy env \<in> dom (files w) then [Removed (temp_copy env)]
                     else []))"
proof (intro conjI allI impI)
  assume "files w db = None"
  then show "extract_chrome_history env days w =
              (SysExit 1,
               say ''Please check if Chrome is installed or if the path is correct.''
                 (say (''Chrome history database not found at '' @ db) w))"
    using assms by (simp add: extract_chrome_history_def)
next
  fix content
  assume h: "files w db = Some content \<and> \<not> temp_is_dir env \<and>
            (platform_system env \<noteq> ''Windows'' \<or> \<not> raises_while_connected env days)"
  let ?t = "extract_try env days db content w"
  let ?w1 = "snd (snd ?t)"
  let ?w2 = "snd (extract_except (fst ?t, ?w1))"
  have blocked: "\<not> (platform_system env = ''Windows'' \<and> fst (snd ?t))"
    using h extract_try_connection [of env days db content w] by auto
  have fin: "extract_finally env (fst (snd ?t)) ?w2 =
               (None, if temp_copy env \<in> dom (files ?w1)
                      then remove_file (temp_copy env) ?w2 else ?w2)"
    using h blocked by (auto simp: extract_finally_def)
  have run: "snd (extract_chrome_history env days w) =
               (if temp_copy env \<in> dom (files ?w1)
                then remove_file (temp_copy env) ?w2 else ?w2)"
    using extract_run [OF assms, of w content days] h fin by simp
  have dest: "copy_destination env = temp_copy env"
    using h by (simp add: copy_destination_def)
  show "files (snd (extract_chrome_history env days w)) (temp_copy env) = None"
    unfolding run by (auto simp: remove_file_def)
  show "events (snd (extract_chrome_history env days w)) =
          events w @
          (case copy_result env of
             CopyDone \<Rightarrow> [Copied db (temp_copy env), Removed (temp_copy env)]
           | CopyRaises msg (Some part) \<Rightarrow>
               [Copied db (temp_copy env), Removed (temp_copy env)]
           | CopyRaises msg None \<Rightarrow>
               if temp_copy env \<in> dom (files w) then [Removed (temp_copy env)] else [])"
    unfolding run extract_try_world dest
    by (auto simp: remove_file_def split: copy_outcome.splits option.splits)
qed

theorem extractor_temp_copy_witness:
  "get_chrome_history_path (linux_env CopyDone (RaisesSqlite ''database is locked'')) =
     Inr history_path \<and>
   files history_world history_path = Some ''SQLite format 3'' \<and>
   \<not> temp_is_dir (linux_env CopyDone (RaisesSqlite ''database is locked'')) \<and>
   platform_system (linux_env CopyDone (RaisesSqlite ''database is locked'')) = ''Linux'' \<and>
   files (snd (extract_chrome_history (linux_env CopyDone (RaisesSqlite ''database is locked''))
                 30 history_world)) ''/home/u/history_temp.db'' = None \<and>
   events (snd (extract_chrome_history (linux_env CopyDone (RaisesSqlite ''database is locked''))
                  30 history_world)) =
     [Copied history_path ''/home/u/history_temp.db'', Removed ''/home/u/history_temp.db''] \<and>
   files empty_world history_path = None \<and>
   extract_chrome_history (linux_env CopyDone (Rows [])) 30 empty_world =
     (SysExit 1,
      \<lparr> files = Map.empty,
        printed =
          [PStr ''Chrome history database not found at /home/u/.config/google-chrome/Default/History'',
           PStr ''Please check if Chrome is installed or if the path is correct.''],
        events = [] \<rparr>)"
proof -
  have present:
    "files (snd (extract_chrome_history
                   (linux_env CopyDone (RaisesSqlite ''database is locked''))
                   30 history_world)) ''/home/u/history_temp.db'' = None \<and>
     events (snd (extract_chrome_history
                    (linux_env CopyDone (RaisesSqlite ''database is locked''))
                    30 history_world)) =
       [Copied history_path ''/home/u/history_temp.db'', Removed ''/home/u/history_temp.db'']"
    using extractor_temp_copy
        [OF history_path_linux [of CopyDone "RaisesSqlite ''database is locked''"],
          where w = history_world and days = 30]
    by (simp add: history_world_def temp_copy_def linux_env_def sample_env_def)
  have absent:
    "extract_chrome_history (linux_env CopyDone (Rows [])) 30 empty_world =
       (SysExit 1,
        \<lparr> files = Map.empty,
          printed =
            [PStr ''Chrome history database not found at /home/u/.config/google-chrome/Default/History'',
             PStr ''Please check if Chrome is installed or if the path is correct.''],
          events = [] \<rparr>)"
    using extractor_temp_copy
        [OF history_path_linux [of CopyDone "Rows []"], where w = empty_world and days = 30]
    by (simp add: empty_world_def history_path_def say_def)
  show ?thesis
    using history_path_linux [of CopyDone "RaisesSqlite ''database is locked''"] present absent
    by (simp add: history_world_def empty_world_def linux_env_def sample_env_def)
qed

text \<open>The run whose query raises, in full.\<close>

lemma extract_query_raises:
  assumes "get_chrome_history_path env = Inr db"
    and "files w db = Some content"
    and "\<not> temp_is_dir env"
    and "copy_result env = CopyDone"
    and "connect_result env = None"
    and "cutoff_timestamp (now_us env) days = Inr cutoff"
    and "query_result env cutoff = RaisesSqlite msg \<and> diagnostic = ''SQLite error: '' @ msg \<or>
         query_result env cutoff = RaisesOther msg \<and> diagnostic = ''Error: '' @ msg"
  shows "extract_chrome_history env days w =
           (if platform_system env = ''Windows''
            then (Uncaught (OSError ''[WinError 32] the file is being used by another process''),
                  say diagnostic
                    (w\<lparr>files := (files w)(temp_copy env \<mapsto> content),
                       events := events w @ [Copied db (temp_copy env)]\<rparr>))
            else (SysExit 1,
                  remove_file (temp_copy env)
                    (say diagnostic
                       (w\<lparr>files := (files w)(temp_copy env \<mapsto> content),
                          events := events w @ [Copied db (temp_copy env)]\<rparr>))))"
proof -
  let ?w1 = "w\<lparr>files := (files w)(temp_copy env \<mapsto> content),
                events := events w @ [Copied db (temp_copy env)]\<rparr>"
  have dest: "copy_destination env = temp_copy env"
    using assms(3) by (simp add: copy_destination_def)
  have conn: "sqlite3_connect env = None"
    using assms(3,5) by (simp add: sqlite3_connect_def)
  from assms(7) have try_except:
    "fst (snd (extract_try env days db content w)) = True \<and>
     extract_except (fst (extract_try env days db content w),
                     snd (snd (extract_try env days db content w))) =
       (SysExit 1, say diagnostic ?w1)"
    using assms(4,6) dest conn
    by (auto simp: extract_try_def extract_except_def Let_def exn_message_def)
  have there: "temp_copy env \<in> dom (files (say diagnostic ?w1))"
    by simp
  show ?thesis
    using extract_run [OF assms(1,2), of days] try_except assms(3) there
    by (simp add: extract_finally_def)
qed

text \<open>
  C6. If the history database does not exist, or the query fails (with \<open>sqlite3.Error\<close>
  or with any other exception), the extractor returns no result and the process ends
  with exit status 1, after a diagnostic: \<open>Chrome history database not found at ...\<close>
  and \<open>Please check ...\<close> in the first case, \<open>SQLite error: ...\<close> or \<open>Error: ...\<close> with
  the exception's message in the second. The extractor ends in \<open>sys.exit(1)\<close>, which
  the script's \<open>main\<close> does not handle; on Windows, when the query has failed, the
  \<open>os.remove\<close> of the \<open>finally\<close> clause raises on the copy still held open and that
  exception ends the process instead, with status 1 as well. Nothing after the
  extraction runs: \<open>main\<close> has printed its first line and the diagnostic, no more.
  (Supported platform, an \<open>--output\<close> value that \<open>argparse\<close> accepts; the query is
  reached: no directory at the temporary path, the copy and the connection succeed, the
  cutoff is computed.)
\<close>

theorem extractor_fatal:
  assumes "get_chrome_history_path env = Inr db"
    and "arg_output args \<in> set [''csv'', ''json'', ''markdown'']"
  shows "(files w db = None \<longrightarrow>
            extract_chrome_history env (arg_days args) w =
              (SysExit 1,
               say ''Please check if Chrome is installed or if the path is correct.''
                 (say (''Chrome history database not found at '' @ db) w)) \<and>
            fst (analyzer_main env lib args w) = SysExit 1 \<and>
            exit_status (fst (analyzer_main env lib args w)) = 1 \<and>
            printed (snd (analyzer_main env lib args w)) =
              printed w @
              [PStr (''Extracting Chrome history for the past '' @ str_int (arg_days args)
                       @ '' days...''),
               PStr (''Chrome history database not found at '' @ db),
               PStr ''Please check if Chrome is installed or if the path is correct.'']) \<and>
         (\<forall>content cutoff msg diagnostic.
            files w db = Some content \<and> \<not> temp_is_dir env \<and>
            copy_result env = CopyDone \<and> connect_result env = None \<and>
            cutoff_timestamp (now_us env) (arg_days args) = Inr cutoff \<and>
            (query_result env cutoff = RaisesSqlite msg \<and>
               diagnostic = ''SQLite error: '' @ msg \<or>
             query_result env cutoff = RaisesOther msg \<and>
               diagnostic = ''Error: '' @ msg) \<longrightarrow>
              fst (extract_chrome_history env (arg_days args) w) =
                (if platform_system env = ''Windows''
                 then Uncaught
                        (OSError ''[WinError 32] the file is being used by another process'')
                 else SysExit 1) \<and>
              printed (snd (extract_chrome_history env (arg_days args) w)) =
                printed w @ [PStr diagnostic] \<and>
              fst (analyzer_main env lib args w) =
                (if platform_system env = ''Windows''
                 then Uncaught
                        (OSError ''[WinError 32] the file is being used by another process'')
                 else SysExit 1) \<and>
              exit_status (fst (analyzer_main env lib args w)) = 1 \<and>
              printed (snd (analyzer_main env lib args w)) =
                printed w @
                [PStr (''Extracting Chrome history for the past '' @ str_int (arg_days args)
                         @ '' days...''),
                 PStr diagnostic])"
proof (intro conjI allI impI)
  let ?first = "''Extracting Chrome history for the past '' @ str_int (arg_days args)
                  @ '' days...''"
  assume none: "files w db = None"
  show "extract_chrome_history env (arg_days args) w =
              (SysExit 1,
               say ''Please check if Chrome is installed or if the path is correct.''
                 (say (''Chrome history database not found at '' @ db) w))"
    using assms(1) none by (simp add: extract_chrome_history_def)
  have main: "analyzer_main env lib args w =
      (SysExit 1,
       say ''Please check if Chrome is installed or if the path is correct.''
         (say (''Chrome history database not found at '' @ db) (say ?first w)))"
    using assms none by (simp add: analyzer_main_def extract_chrome_history_def)
  show "fst (analyzer_main env lib args w) = SysExit 1"
    by (simp add: main)
  show "exit_status (fst (analyzer_main env lib args w)) = 1"
    by (simp add: main exit_status_def)
  show "printed (snd (analyzer_main env lib args w)) =
              printed w @
              [PStr ?first,
               PStr (''Chrome history database not found at '' @ db),
               PStr ''Please check if Chrome is installed or if the path is correct.'']"
    by (simp add: main)
next
  fix content cutoff msg diagnostic
  let ?first = "''Extracting Chrome history for the past '' @ str_int (arg_days args)
                  @ '' days...''"
  let ?busy = "OSError ''[WinError 32] the file is being used by another process''"
  assume h: "files w db = Some content \<and> \<not> temp_is_dir env \<and>
            copy_result env = CopyDone \<and> connect_result env = None \<and>
            cutoff_timestamp (now_us env) (arg_days args) = Inr cutoff \<and>
            (query_result env cutoff = RaisesSqlite msg \<and>
               diagnostic = ''SQLite error: '' @ msg \<or>
             query_result env cutoff = RaisesOther msg \<and>
               diagnostic = ''Error: '' @ msg)"
  have direct: "extract_chrome_history env (arg_days args) w =
           (if platform_system env = ''Windows''
            then (Uncaught ?busy,
                  say diagnostic
                    (w\<lparr>files := (files w)(temp_copy env \<mapsto> content),
                       events := events w @ [Copied db (temp_copy env)]\<rparr>))
            else (SysExit 1,
                  remove_file (temp_copy env)
                    (say diagnostic
                       (w\<lparr>files := (files w)(temp_copy env \<mapsto> content),
                          events := events w @ [Copied db (temp_copy env)]\<rparr>))))"
    by (rule extract_query_raises [OF assms(1), where msg = msg]) (use h in auto)
  define w0 where "w0 = say ?first w"
  have w0: "files w0 db = Some content" "printed w0 = printed w @ [PStr ?first]"
    using h by (simp_all add: w0_def)
  have inner: "extract_chrome_history env (arg_days args) w0 =
           (if platform_system env = ''Windows''
            then (Uncaught ?busy,
                  say diagnostic
                    (w0\<lparr>files := (files w0)(temp_copy env \<mapsto> content),
                       events := events w0 @ [Copied db (temp_copy env)]\<rparr>))
            else (SysExit 1,
                  remove_file (temp_copy env)
                    (say diagnostic
                       (w0\<lparr>files := (files w0)(temp_copy env \<mapsto> content),
                          events := events w0 @ [Copied db (temp_copy env)]\<rparr>))))"
    by (rule extract_query_raises [OF assms(1), where msg = msg]) (use h w0 in auto)
  have main: "analyzer_main env lib args w =
           (if platform_system env = ''Windows''
            then (Uncaught ?busy,
                  say diagnostic
                    (w0\<lparr>files := (files w0)(temp_copy env \<mapsto> content),
                       events := events w0 @ [Copied db (temp_copy env)]\<rparr>))
            else (SysExit 1,
                  remove_file (temp_copy env)
                    (say diagnostic
                       (w0\<lparr>files := (files w0)(temp_copy env \<mapsto> content),
                          events := events w0 @ [Copied db (temp_copy env)]\<rparr>))))"
    using assms(2) unfolding analyzer_main_def w0_def [symmetric]
    by (simp add: inner)
  show "fst (extract_chrome_history env (arg_days args) w) =
          (if platform_system env = ''Windows'' then Uncaught ?busy else SysExit 1)"
    by (simp add: direct)
  show "printed (snd (extract_chrome_history env (arg_days args) w)) =
          printed w @ [PStr diagnostic]"
    by (simp add: direct remove_file_def say_def)
  show "fst (analyzer_main env lib args w) =
          (if platform_system env = ''Windows'' then Uncaught ?busy else SysExit 1)"
    by (simp add: main)
  show "exit_status (fst (analyzer_main env lib args w)) = 1"
    by (simp add: main exit_status_def)
  show "printed (snd (analyzer_main env lib args w)) =
          printed w @ [PStr ?first, PStr diagnostic]"
    using w0(2) by (simp add: main remove_file_def say_def)
qed

theorem extractor_fatal_witness:
  "get_chrome_history_path (linux_env CopyDone (RaisesSqlite ''database is locked'')) =
     Inr history_path \<and>
   arg_output csv_args = ''csv'' \<and>
   files history_world history_path = Some ''SQLite format 3'' \<and>
   cutoff_timestamp (now_us (linux_env CopyDone (RaisesSqlite ''database is locked'')))
     (arg_days csv_args) = Inr 13346031600000000 \<and>
   query_result (linux_env CopyDone (RaisesSqlite ''database is locked'')) 13346031600000000 =
     RaisesSqlite ''database is locked'' \<and>
   fst (extract_chrome_history (linux_env CopyDone (RaisesSqlite ''database is locked''))
          (arg_days csv_args) history_world) = SysExit 1 \<and>
   printed (snd (extract_chrome_history (linux_env CopyDone (RaisesSqlite ''database is locked''))
                   (arg_days csv_args) history_world)) =
     [PStr ''SQLite error: database is locked''] \<and>
   exit_status (fst (analyzer_main (linux_env CopyDone (RaisesSqlite ''database is locked''))
                       plain_renderers csv_args history_world)) = 1 \<and>
   printed (snd (analyzer_main (linux_env CopyDone (RaisesSqlite ''database is locked''))
                   plain_renderers csv_args history_world)) =
     [PStr ''Extracting Chrome history for the past 30 days...'',
      PStr ''SQLite error: database is locked''] \<and>
   files empty_world history_path = None \<and>
   exit_status (fst (analyzer_main (linux_env CopyDone (Rows [])) plain_renderers csv_args
                       empty_world)) = 1 \<and>
   printed (snd (analyzer_main (linux_env CopyDone (Rows [])) plain_renderers csv_args
                   empty_world)) =
     [PStr ''Extracting Chrome history for the past 30 days...'',
      PStr ''Chrome history database not found at /home/u/.config/google-chrome/Default/History'',
      PStr ''Please check if Chrome is installed or if the path is correct.''] \<and>
   files windows_history_world windows_history_path = Some ''SQLite format 3'' \<and>
   query_result (sample_env ''Windows'' CopyDone (RaisesOther ''Execution failed on sql''))
     13346031600000000 = RaisesOther ''Execution failed on sql'' \<and>
   fst (analyzer_main (sample_env ''Windows'' CopyDone (RaisesOther ''Execution failed on sql''))
          plain_renderers csv_args windows_history_world) =
     Uncaught (OSError ''[WinError 32] the file is being used by another process'') \<and>
   exit_status
     (fst (analyzer_main (sample_env ''Windows'' CopyDone (RaisesOther ''Execution failed on sql''))
             plain_renderers csv_args windows_history_world)) = 1 \<and>
   printed
     (snd (analyzer_main (sample_env ''Windows'' CopyDone (RaisesOther ''Execution failed on sql''))
             plain_renderers csv_args windows_history_world)) =
     [PStr ''Extracting Chrome history for the past 30 days...'',
      PStr ''Error: Execution failed on sql'']"
proof -
  let ?env = "linux_env CopyDone (RaisesSqlite ''database is locked'')"
  let ?win = "sample_env ''Windows'' CopyDone (RaisesOther ''Execution failed on sql'')"
  have o: "arg_output csv_args \<in> set [''csv'', ''json'', ''markdown'']"
    by (simp add: csv_args_def)
  have d: "arg_days csv_args = 30" "arg_output csv_args = ''csv''"
    by (simp_all add: csv_args_def)
  have s: "str_int 30 = ''30''"
    by (simp add: str_int_def str_pos.simps digit_def)
  have c: "cutoff_timestamp (now_us ?env) (arg_days csv_args) = Inr 13346031600000000"
    using sample_cutoff by (simp add: linux_env_def sample_env_def csv_args_def)
  have q: "query_result ?env 13346031600000000 = RaisesSqlite ''database is locked''"
    by (simp add: linux_env_def sample_env_def)
  have e: "\<not> temp_is_dir ?env \<and> copy_result ?env = CopyDone \<and> connect_result ?env = None \<and>
           platform_system ?env = ''Linux''"
    by (simp add: linux_env_def sample_env_def)
  have f: "files history_world history_path = Some ''SQLite format 3''"
    by (simp add: history_world_def)
  have linux:
    "fst (extract_chrome_history ?env (arg_days csv_args) history_world) = SysExit 1 \<and>
     printed (snd (extract_chrome_history ?env (arg_days csv_args) history_world)) =
       [PStr ''SQLite error: database is locked''] \<and>
     exit_status (fst (analyzer_main ?env plain_renderers csv_args history_world)) = 1 \<and>
     printed (snd (analyzer_main ?env plain_renderers csv_args history_world)) =
       [PStr ''Extracting Chrome history for the past 30 days...'',
        PStr ''SQLite error: database is locked'']"
    using extractor_fatal
        [OF history_path_linux [of CopyDone "RaisesSqlite ''database is locked''"] o,
          where w = history_world and lib = plain_renderers]
      c q e f
    by (simp add: d s history_world_def exit_status_def)
  have n: "files empty_world history_path = None"
    by (simp add: empty_world_def)
  have missing:
    "exit_status (fst (analyzer_main (linux_env CopyDone (Rows [])) plain_renderers csv_args
                         empty_world)) = 1 \<and>
     printed (snd (analyzer_main (linux_env CopyDone (Rows [])) plain_renderers csv_args
                     empty_world)) =
       [PStr ''Extracting Chrome history for the past 30 days...'',
        PStr ''Chrome history database not found at /home/u/.config/google-chrome/Default/History'',
        PStr ''Please check if Chrome is installed or if the path is correct.'']"
    using extractor_fatal
        [OF history_path_linux [of CopyDone "Rows []"] o,
          where w = empty_world and lib = plain_renderers] n
    by (simp add: d s empty_world_def history_path_def exit_status_def)
  have cw: "cutoff_timestamp (now_us ?win) (arg_days csv_args) = Inr 13346031600000000"
    using sample_cutoff by (simp add: sample_env_def csv_args_def)
  have qw: "query_result ?win 13346031600000000 = RaisesOther ''Execution failed on sql''"
    by (simp add: sample_env_def)
  have ew: "\<not> temp_is_dir ?win \<and> copy_result ?win = CopyDone \<and> connect_result ?win = None \<and>
            platform_system ?win = ''Windows''"
    by (simp add: sample_env_def)
  have fw: "files windows_history_world windows_history_path = Some ''SQLite format 3''"
    by (simp add: windows_history_world_def)
  have windows:
    "fst (analyzer_main ?win plain_renderers csv_args windows_history_world) =
       Uncaught (OSError ''[WinError 32] the file is being used by another process'') \<and>
     exit_status (fst (analyzer_main ?win plain_renderers csv_args windows_history_world)) = 1 \<and>
     printed (snd (analyzer_main ?win plain_renderers csv_args windows_history_world)) =
       [PStr ''Extracting Chrome history for the past 30 days...'',
        PStr ''Error: Execution failed on sql'']"
    using extractor_fatal
        [OF history_path_windows [of CopyDone "RaisesOther ''Execution failed on sql''"] o,
          where w = windows_history_world and lib = plain_renderers]
      cw qw ew fw
    by (simp add: d s windows_history_world_def exit_status_def)
  show ?thesis
    using history_path_linux [of CopyDone "RaisesSqlite ''database is locked''"]
      d(2) f c q linux n missing fw qw windows
    by blast
qed

section \<open>The daily orchestrator\<close>

text \<open>
  C7. The claim: when the report file is missing after the formatting step the
  orchestrator propagates a failure and does not return normally. The code prints
  \<open>Output file not found\<close> and executes \<open>return\<close>: with a child that exits with status 0
  and writes nothing, \<open>generate_daily_summary\<close> returns normally.
\<close>

theorem daily_summary_returns_counterexample:
  "fst (generate_daily_summary quiet_children 1 False empty_world) = Returned () \<and>
   printed (snd (generate_daily_summary quiet_children 1 False empty_world)) =
     [PStr ''Output file not found: output/chrome_history_report.md'']"
  by (simp add: generate_daily_summary_def subprocess_run_def quiet_children_def
      empty_world_def report_file_def say_def)

text \<open>
  C7 as amended. When the analyzer child has exited with status 0 and the report file
  is missing, the orchestrator abandons the rest of the run: it prints the diagnostic and
  returns normally, having archived nothing and started no other child (the world it
  leaves is the one the child left plus the printed line), with or without \<open>--analyze\<close>.
\<close>

theorem daily_summary_missing_report:
  assumes "subprocess_run env
             [''python'', ''chrome_history_analyzer.py'', ''--days'', str_int days,
              ''--output'', ''markdown''] w = (0, w1)"
    and "files w1 report_file = None"
  shows "generate_daily_summary env days analyze w =
           (Returned (), say (''Output file not found: '' @ report_file) w1)"
  using assms by (simp add: generate_daily_summary_def)

theorem daily_summary_missing_report_witness:
  "subprocess_run quiet_children
     [''python'', ''chrome_history_analyzer.py'', ''--days'', str_int 1,
      ''--output'', ''markdown''] empty_world =
     (0, empty_world\<lparr>events := [Ran analyzer_cmd_1]\<rparr>) \<and>
   files (empty_world\<lparr>events := [Ran analyzer_cmd_1]\<rparr>) report_file = None \<and>
   generate_daily_summary quiet_children 1 True empty_world =
     (Returned (),
      \<lparr> files = Map.empty,
        printed = [PStr ''Output file not found: output/chrome_history_report.md''],
        events = [Ran analyzer_cmd_1] \<rparr>)"
proof -
  have r: "subprocess_run quiet_children
     [''python'', ''chrome_history_analyzer.py'', ''--days'', str_int 1,
      ''--output'', ''markdown''] empty_world =
     (0, empty_world\<lparr>events := [Ran analyzer_cmd_1]\<rparr>)"
    by (simp add: subprocess_run_def quiet_children_def empty_world_def str_int_def
        str_pos.simps digit_def analyzer_cmd_1_def)
  have f: "files (empty_world\<lparr>events := [Ran analyzer_cmd_1]\<rparr>) report_file = None"
    by (simp add: empty_world_def)
  show ?thesis
    using daily_summary_missing_report [OF r f, of True] r f
    by (simp add: empty_world_def say_def report_file_def)
qed

section \<open>The prompt formatter\<close>

lemma recent_frame_cong:
  assumes "map (\<lambda>r. (visit_time r, title r, url r)) (take 10 df1) =
           map (\<lambda>r. (visit_time r, title r, url r)) (take 10 df2)"
  shows "recent_frame df1 = recent_frame df2"
proof -
  let ?g = "\<lambda>(t, ti, u). [CTimestamp t, title_cell ti, CStr u]"
  let ?h = "\<lambda>r. (visit_time r, title r, url r)"
  have "map ?g (map ?h (take 10 df1)) = map ?g (map ?h (take 10 df2))"
    by (simp only: assms)
  then show ?thesis
    by (simp add: recent_frame_def comp_def)
qed

text \<open>
  C9. Prompt generation is deterministic. \<open>generate_llm_prompt\<close> reads no clock, no file
  and no variable of the process: its text is a function of its two arguments, and of
  these it reads the hourly table, the top-domains table, the two averages and the
  columns \<open>visit_time\<close>, \<open>title\<close> and \<open>url\<close> of the first ten rows. Two runs whose inputs
  agree on these, and so two runs on identical inputs, produce the same text, character
  for character.
\<close>

theorem prompt_deterministic:
  assumes "hourly_activity a1 = hourly_activity a2"
    and "top_domains a1 = top_domains a2"
    and "avg_first_hour a1 = avg_first_hour a2"
    and "avg_last_hour a1 = avg_last_hour a2"
    and "map (\<lambda>r. (visit_time r, title r, url r)) (take 10 df1) =
         map (\<lambda>r. (visit_time r, title r, url r)) (take 10 df2)"
  shows "generate_llm_prompt lib a1 df1 = generate_llm_prompt lib a2 df2"
  unfolding generate_llm_prompt_def assms(1) assms(2) assms(3) assms(4)
    recent_frame_cong [OF assms(5)]
  by (rule refl)

theorem prompt_deterministic_witness:
  "hourly_activity scenario_analysis =
     hourly_activity (scenario_analysis\<lparr>daily_activity := []\<rparr>) \<and>
   top_domains scenario_analysis = top_domains (scenario_analysis\<lparr>daily_activity := []\<rparr>) \<and>
   avg_first_hour scenario_analysis =
     avg_first_hour (scenario_analysis\<lparr>daily_activity := []\<rparr>) \<and>
   avg_last_hour scenario_analysis =
     avg_last_hour (scenario_analysis\<lparr>daily_activity := []\<rparr>) \<and>
   generate_llm_prompt plain_renderers scenario_analysis scenario_df =
     generate_llm_prompt plain_renderers (scenario_analysis\<lparr>daily_activity := []\<rparr>)
       scenario_df"
  using prompt_deterministic [of scenario_analysis "scenario_analysis\<lparr>daily_activity := []\<rparr>"
      scenario_df scenario_df plain_renderers]
  by simp

section \<open>The submission step\<close>

text \<open>
  C8. With provider \<open>openai\<close> and the variable \<open>OPENAI_API_KEY\<close> unset, the OpenAI backend
  yields \<open>None\<close>, and \<open>main\<close> returns having changed no file and performed no file
  operation: the insights file keeps the content it had, or stays absent.
\<close>

theorem openai_without_credential:
  assumes "provider args = ''openai''"
    and "environ env ''OPENAI_API_KEY'' = None"
  shows "fst (analyze_with_openai env prompt w') = PNone \<and>
         fst (llm_main env args w) = Returned () \<and>
         files (snd (llm_main env args w)) = files w \<and>
         files (snd (llm_main env args w)) insights_file = files w insights_file \<and>
         events (snd (llm_main env args w)) = events w"
  using assms
  by (auto simp: analyze_with_openai_def llm_main_def say_def split: option.splits)

theorem openai_without_credential_witness:
  "provider (default_args ''openai'') = ''openai'' \<and>
   environ no_key_env ''OPENAI_API_KEY'' = None \<and>
   fst (analyze_with_openai no_key_env ''Analyze this'' prompt_world) = PNone \<and>
   fst (llm_main no_key_env (default_args ''openai'') prompt_world) = Returned () \<and>
   files (snd (llm_main no_key_env (default_args ''openai'') prompt_world)) insights_file =
     Some ''old insights'' \<and>
   events (snd (llm_main no_key_env (default_args ''openai'') prompt_world)) = []"
proof -
  have a: "provider (default_args ''openai'') = ''openai''"
    by (simp add: default_args_def)
  have b: "environ no_key_env ''OPENAI_API_KEY'' = None"
    by (simp add: no_key_env_def)
  show ?thesis
    using openai_without_credential [OF a b, of "''Analyze this''" prompt_world prompt_world]
      a b
    by (simp add: prompt_world_def insights_file_def)
qed

section \<open>The local backend\<close>

lemma local_try_cases:
  "local_llm_try env prompt w =
     (case requests_post env ollama_url (ollama_request prompt) of
        Inl e \<Rightarrow> Inl e
      | Inr response \<Rightarrow>
          if status_code response \<noteq> 200
          then Inr (PNone, say (''Error from Ollama API: '' @ str_int (status_code response)
                                  @ '' - '' @ body_text response) w)
          else (case json_body response of
                  Inl e \<Rightarrow> Inl e
                | Inr (PDict kvs) \<Rightarrow> Inr (dict_get kvs ''response'' (PStr no_response), w)
                | Inr other \<Rightarrow> Inl (AttributeError ''object has no attribute get'')))"
  by (simp add: local_llm_try_def split: sum.splits)

lemma dict_get_none:
  "dict_get kvs k (PStr s) = PNone \<longleftrightarrow> map_of (rev kvs) k = Some PNone"
  by (simp add: dict_get_def split: option.splits)

lemma local_none_iff:
  "fst (analyze_with_local_llm env prompt w) = PNone \<longleftrightarrow>
     (\<not> requests_installed env \<or>
      (\<exists>e. requests_post env ollama_url (ollama_request prompt) = Inl e) \<or>
      (\<exists>resp. requests_post env ollama_url (ollama_request prompt) = Inr resp \<and>
         (status_code resp \<noteq> 200 \<or>
          (\<exists>e. json_body resp = Inl e) \<or>
          (\<exists>v. json_body resp = Inr v \<and> (\<forall>kvs. v \<noteq> PDict kvs)) \<or>
          (\<exists>kvs. json_body resp = Inr (PDict kvs) \<and>
                 map_of (rev kvs) ''response'' = Some PNone))))"
proof (cases "requests_installed env")
  case False
  then show ?thesis by (simp add: analyze_with_local_llm_def)
next
  case inst: True
  show ?thesis
  proof (cases "requests_post env ollama_url (ollama_request prompt)")
    case (Inl e)
    then show ?thesis using inst by (simp add: analyze_with_local_llm_def local_try_cases)
  next
    case (Inr resp)
    show ?thesis
    proof (cases "status_code resp = 200")
      case False
      then show ?thesis
        using inst Inr by (simp add: analyze_with_local_llm_def local_try_cases)
    next
      case ok: True
      show ?thesis
      proof (cases "json_body resp")
        case (Inl e)
        then show ?thesis using inst Inr ok
          by (simp add: analyze_with_local_llm_def local_try_cases)
      next
        case body: (Inr v)
        show ?thesis
          using inst Inr ok body
          by (cases v) (simp_all add: analyze_with_local_llm_def local_try_cases dict_get_none)
      qed
    qed
  qed
qed

lemma local_files [simp]: "files (snd (analyze_with_local_llm env prompt w)) = files w"
  by (auto simp: analyze_with_local_llm_def local_try_cases
      split: sum.splits pyval.splits if_splits)

lemma local_events [simp]: "events (snd (analyze_with_local_llm env prompt w)) = events w"
  by (auto simp: analyze_with_local_llm_def local_try_cases
      split: sum.splits pyval.splits if_splits)

lemma local_value_any_world:
  "fst (analyze_with_local_llm env prompt w) = fst (analyze_with_local_llm env prompt w')"
  by (auto simp: analyze_with_local_llm_def local_try_cases
      split: sum.splits pyval.splits if_splits)

lemma local_none_not_saved:
  assumes "provider args = ''local''"
    and "files w (prompt_file args) = Some prompt"
    and "fst (analyze_with_local_llm env prompt w') = PNone"
  shows "fst (llm_main env args w) = Returned () \<and>
         files (snd (llm_main env args w)) = files w \<and>
         events (snd (llm_main env args w)) = events w"
proof -
  let ?w1 = "say (''Analyzing browsing history with '' @ provider args @ ''...'') w"
  obtain v w2 where r: "analyze_with_local_llm env prompt ?w1 = (v, w2)"
    by (cases "analyze_with_local_llm env prompt ?w1")
  have "v = PNone"
    using assms(3) r local_value_any_world [of env prompt ?w1 w'] by simp
  moreover have "files w2 = files (snd (analyze_with_local_llm env prompt ?w1))"
    unfolding r by simp
  then have "files w2 = files w"
    by simp
  moreover have "events w2 = events (snd (analyze_with_local_llm env prompt ?w1))"
    unfolding r by simp
  then have "events w2 = events w"
    by simp
  ultimately show ?thesis
    using assms(1,2) r by (simp add: llm_main_def)
qed

lemma local_placeholder:
  assumes "requests_installed env"
    and "requests_post env ollama_url (ollama_request prompt) = Inr resp"
    and "status_code resp = 200"
    and "json_body resp = Inr (PDict kvs)"
    and "''response'' \<notin> fst ` set kvs"
  shows "analyze_with_local_llm env prompt w = (PStr no_response, w)"
proof -
  have "map_of (rev kvs) ''response'' = None"
    using assms(5) by (simp add: map_of_eq_None_iff)
  then show ?thesis using assms(1-4)
    by (simp add: analyze_with_local_llm_def local_llm_try_def dict_get_def)
qed

lemma local_placeholder_saved:
  assumes "requests_installed env"
    and "requests_post env ollama_url (ollama_request prompt) = Inr resp"
    and "status_code resp = 200"
    and "json_body resp = Inr (PDict kvs)"
    and "''response'' \<notin> fst ` set kvs"
    and "provider args = ''local''"
    and "files w (prompt_file args) = Some prompt"
  shows "fst (llm_main env args w) = Returned () \<and>
         files (snd (llm_main env args w)) insights_file =
           Some (insights_heading @ no_response)"
  using assms(6,7) local_placeholder [OF assms(1-5)]
  by (simp add: llm_main_def save_insights_def write_file_def say_def no_response_def)

text \<open>
  C10. The claim: the local backend returns \<open>None\<close> if and only if the HTTP status is not
  200 or an exception is raised. The code returns what \<open>.get("response", ...)\<close> finds: a
  response with status 200 whose body is \<open>{"response": null}\<close> raises nothing (the
  \<open>try\<close> block completes, nothing is printed) and the backend returns \<open>None\<close>.
\<close>

theorem local_null_response_counterexample:
  "status_code null_response = 200 \<and>
   local_llm_try (ollama null_response) ''Analyze this'' empty_world =
     Inr (PNone, empty_world) \<and>
   analyze_with_local_llm (ollama null_response) ''Analyze this'' empty_world =
     (PNone, empty_world)"
  by (simp add: null_response_def ollama_def local_llm_try_def analyze_with_local_llm_def
      dict_get_def)

text \<open>
  C10 as amended. The local backend returns \<open>None\<close> if and only if the \<open>requests\<close>
  package is missing, or an exception is raised (\<open>requests.post\<close> raises, or the
  response has status 200 and \<open>response.json()\<close> raises, or it has status 200 and its
  decoded body is not an object, so that \<open>.get\<close> raises), or the HTTP status is not
  200, or the status is 200 and the body's \<open>response\<close> field is null. When it returns \<open>None\<close>,
  \<open>main\<close> saves nothing. A response with status 200 whose JSON object has no
  \<open>response\<close> field yields the placeholder \<open>No response from local LLM\<close>, which \<open>main\<close>
  writes to the insights file under the heading, as it would write insights.
\<close>

theorem local_backend_result:
  "(fst (analyze_with_local_llm env prompt w) = PNone \<longleftrightarrow>
      (\<not> requests_installed env \<or>
       (\<exists>e. requests_post env ollama_url (ollama_request prompt) = Inl e) \<or>
       (\<exists>resp. requests_post env ollama_url (ollama_request prompt) = Inr resp \<and>
          (status_code resp \<noteq> 200 \<or>
           (\<exists>e. json_body resp = Inl e) \<or>
           (\<exists>v. json_body resp = Inr v \<and> (\<forall>kvs. v \<noteq> PDict kvs)) \<or>
           (\<exists>kvs. json_body resp = Inr (PDict kvs) \<and>
                  map_of (rev kvs) ''response'' = Some PNone))))) \<and>
   (provider args = ''local'' \<and> files w (prompt_file args) = Some prompt \<and>
    fst (analyze_with_local_llm env prompt w) = PNone \<longrightarrow>
      fst (llm_main env args w) = Returned () \<and>
      files (snd (llm_main env args w)) = files w \<and>
      events (snd (llm_main env args w)) = events w) \<and>
   (requests_installed env \<and>
    requests_post env ollama_url (ollama_request prompt) = Inr resp \<and>
    status_code resp = 200 \<and> json_body resp = Inr (PDict kvs) \<and>
    ''response'' \<notin> fst ` set kvs \<and>
    provider args = ''local'' \<and> files w (prompt_file args) = Some prompt \<longrightarrow>
      fst (analyze_with_local_llm env prompt w) = PStr no_response \<and>
      fst (llm_main env args w) = Returned () \<and>
      files (snd (llm_main env args w)) insights_file =
        Some (insights_heading @ no_response))"
proof (intro conjI impI)
  show "fst (analyze_with_local_llm env prompt w) = PNone \<longleftrightarrow>
      (\<not> requests_installed env \<or>
       (\<exists>e. requests_post env ollama_url (ollama_request prompt) = Inl e) \<or>
       (\<exists>resp. requests_post env ollama_url (ollama_request prompt) = Inr resp \<and>
          (status_code resp \<noteq> 200 \<or>
           (\<exists>e. json_body resp = Inl e) \<or>
           (\<exists>v. json_body resp = Inr v \<and> (\<forall>kvs. v \<noteq> PDict kvs)) \<or>
           (\<exists>kvs. json_body resp = Inr (PDict kvs) \<and>
                  map_of (rev kvs) ''response'' = Some PNone))))"
    by (rule local_none_iff)
next
  assume h: "provider args = ''local'' \<and> files w (prompt_file args) = Some prompt \<and>
    fst (analyze_with_local_llm env prompt w) = PNone"
  then have n: "fst (llm_main env args w) = Returned () \<and>
         files (snd (llm_main env args w)) = files w \<and>
         events (snd (llm_main env args w)) = events w"
    using local_none_not_saved [of args w prompt env w] by simp
  from n show "fst (llm_main env args w) = Returned ()" by simp
  from n show "files (snd (llm_main env args w)) = files w" by simp
  from n show "events (snd (llm_main env args w)) = events w" by simp
next
  assume h: "requests_installed env \<and>
    requests_post env ollama_url (ollama_request prompt) = Inr resp \<and>
    status_code resp = 200 \<and> json_body resp = Inr (PDict kvs) \<and>
    ''response'' \<notin> fst ` set kvs \<and>
    provider args = ''local'' \<and> files w (prompt_file args) = Some prompt"
  then have a: "analyze_with_local_llm env prompt w = (PStr no_response, w)"
    using local_placeholder [of env prompt resp kvs w] by simp
  from h have s: "fst (llm_main env args w) = Returned () \<and>
         files (snd (llm_main env args w)) insights_file =
           Some (insights_heading @ no_response)"
    using local_placeholder_saved [of env prompt resp kvs args w] by simp
  from a show "fst (analyze_with_local_llm env prompt w) = PStr no_response" by simp
  from s show "fst (llm_main env args w) = Returned ()" by simp
  from s show "files (snd (llm_main env args w)) insights_file =
        Some (insights_heading @ no_response)" by simp
qed

theorem local_backend_result_witness:
  "requests_installed (ollama empty_object_response) \<and>
   requests_post (ollama empty_object_response) ollama_url (ollama_request ''Analyze this'') =
     Inr empty_object_response \<and>
   status_code empty_object_response = 200 \<and>
   json_body empty_object_response = Inr (PDict []) \<and>
   provider (default_args ''local'') = ''local'' \<and>
   files prompt_world (prompt_file (default_args ''local'')) = Some ''Analyze this'' \<and>
   fst (analyze_with_local_llm (ollama empty_object_response) ''Analyze this'' prompt_world) =
     PStr ''No response from local LLM'' \<and>
   files (snd (llm_main (ollama empty_object_response) (default_args ''local'') prompt_world))
     insights_file =
     Some (insights_heading @ ''No response from local LLM'') \<and>
   fst (analyze_with_local_llm (ollama null_response) ''Analyze this'' prompt_world) = PNone \<and>
   files (snd (llm_main (ollama null_response) (default_args ''local'') prompt_world))
     insights_file = Some ''old insights'' \<and>
   events (snd (llm_main (ollama null_response) (default_args ''local'') prompt_world)) = []"
proof -
  have placeholder:
    "fst (analyze_with_local_llm (ollama empty_object_response) ''Analyze this'' prompt_world) =
       PStr ''No response from local LLM'' \<and>
     files (snd (llm_main (ollama empty_object_response) (default_args ''local'') prompt_world))
       insights_file =
       Some (insights_heading @ ''No response from local LLM'')"
    using local_backend_result
        [of "ollama empty_object_response" "''Analyze this''" prompt_world
          "default_args ''local''" empty_object_response "[]"]
    by (simp add: ollama_def empty_object_response_def default_args_def prompt_world_def
        no_response_def)
  have none:
    "fst (analyze_with_local_llm (ollama null_response) ''Analyze this'' prompt_world) = PNone"
    by (simp add: null_response_def ollama_def local_llm_try_def analyze_with_local_llm_def
        dict_get_def)
  have kept:
    "files (snd (llm_main (ollama null_response) (default_args ''local'') prompt_world))
       insights_file = Some ''old insights'' \<and>
     events (snd (llm_main (ollama null_response) (default_args ''local'') prompt_world)) = []"
    using local_backend_result
        [of "ollama null_response" "''Analyze this''" prompt_world
          "default_args ''local''" null_response "[]"] none
    by (simp add: default_args_def prompt_world_def insights_file_def)
  show ?thesis
    using placeholder none kept
    by (simp add: ollama_def empty_object_response_def default_args_def prompt_world_def)
qed

end
